theory Spec2Isabelle
  imports Main "HOL-Library.Word"
begin

unbundle bit_operations_syntax

section \<open>Bitboard primitives (bitboard.h, bitboard.cpp)\<close>

text \<open>
  A bitboard is a \<^verbatim>\<open>uint64_t\<close>. The enums \<^verbatim>\<open>PieceType\<close> and \<^verbatim>\<open>Color\<close> are datatypes in the
  order of their declaration. \<^verbatim>\<open>Square\<close>, \<^verbatim>\<open>Rank\<close> and \<^verbatim>\<open>File\<close> are unscoped enums on which
  the code does integer arithmetic (\<^verbatim>\<open>sq / 8\<close>, \<^verbatim>\<open>from + 8\<close>); they are modelled by their
  enumerator value, a natural number: \<^verbatim>\<open>A1\<close> is 0, \<^verbatim>\<open>H8\<close> is 63 and \<^verbatim>\<open>NO_SQUARE\<close> is 64.
\<close>

type_synonym Bitboard = "64 word"

datatype PieceType = PAWN | KNIGHT | BISHOP | ROOK | QUEEN | KING | NO_PIECE_TYPE

datatype Color = WHITE | BLACK | NO_COLOR

type_synonym Square = nat

abbreviation (input) A1 :: Square where "A1 \<equiv> 0"
abbreviation (input) B1 :: Square where "B1 \<equiv> 1"
abbreviation (input) C1 :: Square where "C1 \<equiv> 2"
abbreviation (input) D1 :: Square where "D1 \<equiv> 3"
abbreviation (input) E1 :: Square where "E1 \<equiv> 4"
abbreviation (input) F1 :: Square where "F1 \<equiv> 5"
abbreviation (input) G1 :: Square where "G1 \<equiv> 6"
abbreviation (input) H1 :: Square where "H1 \<equiv> 7"
abbreviation (input) A8 :: Square where "A8 \<equiv> 56"
abbreviation (input) B8 :: Square where "B8 \<equiv> 57"
abbreviation (input) C8 :: Square where "C8 \<equiv> 58"
abbreviation (input) D8 :: Square where "D8 \<equiv> 59"
abbreviation (input) E8 :: Square where "E8 \<equiv> 60"
abbreviation (input) F8 :: Square where "F8 \<equiv> 61"
abbreviation (input) G8 :: Square where "G8 \<equiv> 62"
abbreviation (input) H8 :: Square where "H8 \<equiv> 63"
abbreviation (input) NO_SQUARE :: Square where "NO_SQUARE \<equiv> 64"

abbreviation (input) FILE_A :: nat where "FILE_A \<equiv> 0"
abbreviation (input) FILE_B :: nat where "FILE_B \<equiv> 1"
abbreviation (input) FILE_G :: nat where "FILE_G \<equiv> 6"
abbreviation (input) FILE_H :: nat where "FILE_H \<equiv> 7"

definition FILE_MASKS :: "Bitboard list" where
  "FILE_MASKS =
    [0x0101010101010101, 0x0202020202020202, 0x0404040404040404, 0x0808080808080808,
     0x1010101010101010, 0x2020202020202020, 0x4040404040404040, 0x8080808080808080]"

definition squareRank :: "Square \<Rightarrow> nat" where
  "squareRank sq = sq div 8"

definition squareFile :: "Square \<Rightarrow> nat" where
  "squareFile sq = sq mod 8"

definition squareFromRankFile :: "nat \<Rightarrow> nat \<Rightarrow> Square" where
  "squareFromRankFile r f = r * 8 + f"

text \<open>
  \<^verbatim>\<open>1ULL << sq\<close>. The shift is defined in C++ for \<^verbatim>\<open>sq\<close> from 0 to 63 only; the operations
  below that receive a square from outside (\<^verbatim>\<open>makeMove\<close>, \<^verbatim>\<open>setFromFen\<close>) check the range
  before they use it and have a result of their own for a shift out of range.
\<close>

definition sqBit :: "Square \<Rightarrow> Bitboard" where
  "sqBit sq = push_bit sq 1"

definition setBit :: "Bitboard \<Rightarrow> Square \<Rightarrow> Bitboard" where
  "setBit bb sq = bb OR sqBit sq"

definition clearBit :: "Bitboard \<Rightarrow> Square \<Rightarrow> Bitboard" where
  "clearBit bb sq = bb AND NOT (sqBit sq)"


text \<open>
  \<^verbatim>\<open>popCount\<close>: the loop \<^verbatim>\<open>while (bb) { bb &= bb - 1; count++; }\<close>.
\<close>

function popCount_loop :: "Bitboard \<Rightarrow> nat \<Rightarrow> nat" where
  "popCount_loop bb count =
     (if bb \<noteq> 0 then popCount_loop (bb AND (bb - 1)) (count + 1) else count)"
  by pat_completeness auto

lemma and_pred_less:
  fixes bb :: "'a::len word"
  assumes "bb \<noteq> 0"
  shows "unat (bb AND (bb - 1)) < unat bb"
proof -
  have "bb AND (bb - 1) \<le> bb - 1"
    by (rule word_and_le1)
  moreover have "bb - 1 < bb"
    using assms by (simp add: word_less_nat_alt unat_minus_one unat_gt_0)
  ultimately have "bb AND (bb - 1) < bb"
    by (rule le_less_trans)
  then show ?thesis
    by (simp add: word_less_nat_alt)
qed

termination popCount_loop
  by (relation "measure (\<lambda>(bb, count). unat bb)") (simp_all add: and_pred_less)

definition popCount :: "Bitboard \<Rightarrow> nat" where
  "popCount bb = popCount_loop bb 0"

text \<open>
  \<^verbatim>\<open>lsb\<close>, on the branch compiled by GCC and Clang: \<^verbatim>\<open>__builtin_ctzll\<close> counts the zero
  bits below the lowest set bit of a nonzero argument.
\<close>

definition ctzll :: "Bitboard \<Rightarrow> nat" where
  "ctzll bb = length (takeWhile (\<lambda>i. \<not> bit bb i) [0..<64])"

definition lsb :: "Bitboard \<Rightarrow> Square" where
  "lsb bb = (if bb = 0 then NO_SQUARE else ctzll bb)"

text \<open>
  \<^verbatim>\<open>popLsb(Bitboard& bb)\<close>: the first component is the value returned, the second the
  value left in the argument.
\<close>

definition popLsb :: "Bitboard \<Rightarrow> Bitboard \<times> Bitboard" where
  "popLsb bb = (let result = bb in (result, bb AND (bb - 1)))"

subsection \<open>Pawn attack table\<close>

definition generatePawnAttacks :: "Square \<Rightarrow> Color \<Rightarrow> Bitboard" where
  "generatePawnAttacks sq color =
     (if color = WHITE
      then (push_bit 9 (sqBit sq) AND NOT (FILE_MASKS ! FILE_A)) OR
           (push_bit 7 (sqBit sq) AND NOT (FILE_MASKS ! FILE_H))
      else (drop_bit 7 (sqBit sq) AND NOT (FILE_MASKS ! FILE_A)) OR
           (drop_bit 9 (sqBit sq) AND NOT (FILE_MASKS ! FILE_H)))"

text \<open>
  \<^verbatim>\<open>PAWN_ATTACKS[color][sq]\<close> after \<^verbatim>\<open>initBitboards\<close>, which fills the entries of both
  colours for the squares 0 to 63.
\<close>

definition PAWN_ATTACKS :: "Color \<Rightarrow> Square \<Rightarrow> Bitboard" where
  "PAWN_ATTACKS color sq = generatePawnAttacks sq color"

subsection \<open>Knight and king attack tables\<close>

definition generateKnightAttacks :: "Square \<Rightarrow> Bitboard" where
  "generateKnightAttacks sq =
     (push_bit 17 (sqBit sq) AND NOT (FILE_MASKS ! FILE_A)) OR
     (push_bit 10 (sqBit sq) AND NOT (FILE_MASKS ! FILE_A OR FILE_MASKS ! FILE_B)) OR
     (drop_bit 6 (sqBit sq) AND NOT (FILE_MASKS ! FILE_A OR FILE_MASKS ! FILE_B)) OR
     (drop_bit 15 (sqBit sq) AND NOT (FILE_MASKS ! FILE_A)) OR
     (drop_bit 17 (sqBit sq) AND NOT (FILE_MASKS ! FILE_H)) OR
     (drop_bit 10 (sqBit sq) AND NOT (FILE_MASKS ! FILE_G OR FILE_MASKS ! FILE_H)) OR
     (push_bit 6 (sqBit sq) AND NOT (FILE_MASKS ! FILE_G OR FILE_MASKS ! FILE_H)) OR
     (push_bit 15 (sqBit sq) AND NOT (FILE_MASKS ! FILE_H))"

definition generateKingAttacks :: "Square \<Rightarrow> Bitboard" where
  "generateKingAttacks sq =
     push_bit 8 (sqBit sq) OR
     (push_bit 9 (sqBit sq) AND NOT (FILE_MASKS ! FILE_A)) OR
     (push_bit 1 (sqBit sq) AND NOT (FILE_MASKS ! FILE_A)) OR
     (drop_bit 7 (sqBit sq) AND NOT (FILE_MASKS ! FILE_A)) OR
     drop_bit 8 (sqBit sq) OR
     (drop_bit 9 (sqBit sq) AND NOT (FILE_MASKS ! FILE_H)) OR
     (drop_bit 1 (sqBit sq) AND NOT (FILE_MASKS ! FILE_H)) OR
     (push_bit 7 (sqBit sq) AND NOT (FILE_MASKS ! FILE_H))"

definition KNIGHT_ATTACKS :: "Square \<Rightarrow> Bitboard" where
  "KNIGHT_ATTACKS sq = generateKnightAttacks sq"

definition KING_ATTACKS :: "Square \<Rightarrow> Bitboard" where
  "KING_ATTACKS sq = generateKingAttacks sq"

subsection \<open>Sliding attacks (movegen.cpp)\<close>

text \<open>
  Each of the eight loops of \<^verbatim>\<open>generateRookAttacks\<close> and \<^verbatim>\<open>generateBishopAttacks\<close> walks
  the squares of one ray outwards, adds the square to \<^verbatim>\<open>attacks\<close> and breaks after the
  first occupied one. \<open>slide\<close> is that loop body over the squares of the ray in the order
  the loop header produces them.
\<close>

fun slide :: "Square list \<Rightarrow> Bitboard \<Rightarrow> Bitboard \<Rightarrow> Bitboard" where
  "slide [] occupied attacks = attacks"
| "slide (s # rest) occupied attacks =
     (if occupied AND sqBit s \<noteq> 0 then attacks OR sqBit s
      else slide rest occupied (attacks OR sqBit s))"

definition generateRookAttacks :: "Square \<Rightarrow> Bitboard \<Rightarrow> Bitboard" where
  "generateRookAttacks sq occupied =
     slide (map (\<lambda>f. squareFromRankFile (squareRank sq) f) (rev [0 ..< squareFile sq]))
       occupied
       (slide (map (\<lambda>f. squareFromRankFile (squareRank sq) f) [squareFile sq + 1 ..< 8])
          occupied
          (slide (map (\<lambda>r. squareFromRankFile r (squareFile sq)) (rev [0 ..< squareRank sq]))
             occupied
             (slide (map (\<lambda>r. squareFromRankFile r (squareFile sq)) [squareRank sq + 1 ..< 8])
                occupied 0)))"

text \<open>
  The squares of a bishop loop, which steps rank and file together while both are on the
  board.
\<close>

definition diagonal :: "nat list \<Rightarrow> nat list \<Rightarrow> Square list" where
  "diagonal ranks files = map (\<lambda>(r, f). squareFromRankFile r f) (zip ranks files)"

definition generateBishopAttacks :: "Square \<Rightarrow> Bitboard \<Rightarrow> Bitboard" where
  "generateBishopAttacks sq occupied =
     slide (diagonal [squareRank sq + 1 ..< 8] (rev [0 ..< squareFile sq])) occupied
       (slide (diagonal (rev [0 ..< squareRank sq]) (rev [0 ..< squareFile sq])) occupied
          (slide (diagonal (rev [0 ..< squareRank sq]) [squareFile sq + 1 ..< 8]) occupied
             (slide (diagonal [squareRank sq + 1 ..< 8] [squareFile sq + 1 ..< 8]) occupied
                0)))"

text \<open>
  \<^verbatim>\<open>Color(1 - c)\<close> for the two colours. The callers below reach it with \<^verbatim>\<open>WHITE\<close> or
  \<^verbatim>\<open>BLACK\<close> only.
\<close>

fun opposite :: "Color \<Rightarrow> Color" where
  "opposite WHITE = BLACK"
| "opposite BLACK = WHITE"
| "opposite NO_COLOR = NO_COLOR"

definition getPieceAttacks :: "PieceType \<Rightarrow> Square \<Rightarrow> Color \<Rightarrow> Bitboard \<Rightarrow> Bitboard" where
  "getPieceAttacks pieceType sq color occupied =
     (case pieceType of
        PAWN \<Rightarrow> PAWN_ATTACKS color sq
      | KNIGHT \<Rightarrow> KNIGHT_ATTACKS sq
      | BISHOP \<Rightarrow> generateBishopAttacks sq occupied
      | ROOK \<Rightarrow> generateRookAttacks sq occupied
      | QUEEN \<Rightarrow> generateBishopAttacks sq occupied OR generateRookAttacks sq occupied
      | KING \<Rightarrow> KING_ATTACKS sq
      | NO_PIECE_TYPE \<Rightarrow> 0)"

section \<open>Moves and their UCI text (board.h, board.cpp)\<close>

record Move =
  from_sq :: Square
  to_sq :: Square
  promotion :: PieceType

definition Move_default :: Move where
  "Move_default = \<lparr>from_sq = NO_SQUARE, to_sq = NO_SQUARE, promotion = NO_PIECE_TYPE\<rparr>"

definition isValid :: "Move \<Rightarrow> bool" where
  "isValid m \<longleftrightarrow> from_sq m \<noteq> NO_SQUARE \<and> to_sq m \<noteq> NO_SQUARE"

text \<open>
  \<^verbatim>\<open>uci += 'a' + squareFile(from)\<close> appends the character with that code.
\<close>

definition toUci :: "Move \<Rightarrow> string" where
  "toUci m =
     (if \<not> isValid m then ''0000''
      else
        [char_of (of_char CHR ''a'' + squareFile (from_sq m)),
         char_of (of_char CHR ''1'' + squareRank (from_sq m)),
         char_of (of_char CHR ''a'' + squareFile (to_sq m)),
         char_of (of_char CHR ''1'' + squareRank (to_sq m))] @
        (if promotion m \<noteq> NO_PIECE_TYPE
         then (case promotion m of
                 QUEEN \<Rightarrow> ''q''
               | ROOK \<Rightarrow> ''r''
               | BISHOP \<Rightarrow> ''b''
               | KNIGHT \<Rightarrow> ''n''
               | _ \<Rightarrow> [])
         else []))"

text \<open>
  \<^verbatim>\<open>uci[0] - 'a'\<close> is an \<^verbatim>\<open>int\<close>. A byte above 127 gives a negative difference where
  \<^verbatim>\<open>char\<close> is signed and one above 7 where it is unsigned; the range check rejects both, so
  the model reads the byte as unsigned.
\<close>

definition fromUci :: "string \<Rightarrow> Move" where
  "fromUci uci =
     (if length uci < 4 \<or> length uci > 5 then Move_default
      else
        let fromFile = int (of_char (uci ! 0)) - int (of_char CHR ''a'');
            fromRank = int (of_char (uci ! 1)) - int (of_char CHR ''1'');
            toFile = int (of_char (uci ! 2)) - int (of_char CHR ''a'');
            toRank = int (of_char (uci ! 3)) - int (of_char CHR ''1'')
        in
          if fromFile < 0 \<or> fromFile > 7 \<or> fromRank < 0 \<or> fromRank > 7 \<or>
             toFile < 0 \<or> toFile > 7 \<or> toRank < 0 \<or> toRank > 7
          then Move_default
          else
            let f = squareFromRankFile (nat fromRank) (nat fromFile);
                t = squareFromRankFile (nat toRank) (nat toFile)
            in
              if length uci = 5
              then (if uci ! 4 = CHR ''q'' then \<lparr>from_sq = f, to_sq = t, promotion = QUEEN\<rparr>
                    else if uci ! 4 = CHR ''r'' then \<lparr>from_sq = f, to_sq = t, promotion = ROOK\<rparr>
                    else if uci ! 4 = CHR ''b'' then \<lparr>from_sq = f, to_sq = t, promotion = BISHOP\<rparr>
                    else if uci ! 4 = CHR ''n'' then \<lparr>from_sq = f, to_sq = t, promotion = KNIGHT\<rparr>
                    else Move_default)
              else \<lparr>from_sq = f, to_sq = t, promotion = NO_PIECE_TYPE\<rparr>)"

section \<open>The position (board.h, board.cpp)\<close>

text \<open>
  \<^verbatim>\<open>_pieces\<close> is a 2 by 6 array indexed by colour and piece type, \<^verbatim>\<open>_allPieces\<close> an array
  of 2: lists, read and written at the enumerator values.
\<close>

record Board =
  pieces :: "Bitboard list list"
  allPieces :: "Bitboard list"
  occupiedSquares :: Bitboard
  sideToMove :: Color
  castlingRights :: int
  enPassantSquare :: Square
  halfmoveClock :: int
  fullmoveNumber :: int
  chess960 :: bool

fun colorIdx :: "Color \<Rightarrow> nat" where
  "colorIdx WHITE = 0"
| "colorIdx BLACK = 1"
| "colorIdx NO_COLOR = 2"

fun pieceIdx :: "PieceType \<Rightarrow> nat" where
  "pieceIdx PAWN = 0"
| "pieceIdx KNIGHT = 1"
| "pieceIdx BISHOP = 2"
| "pieceIdx ROOK = 3"
| "pieceIdx QUEEN = 4"
| "pieceIdx KING = 5"
| "pieceIdx NO_PIECE_TYPE = 6"

definition getPieces :: "Board \<Rightarrow> Color \<Rightarrow> PieceType \<Rightarrow> Bitboard" where
  "getPieces b c p = pieces b ! colorIdx c ! pieceIdx p"

definition setPieces :: "Board \<Rightarrow> Color \<Rightarrow> PieceType \<Rightarrow> Bitboard \<Rightarrow> Board" where
  "setPieces b c p v =
     b\<lparr>pieces := (pieces b)[colorIdx c := (pieces b ! colorIdx c)[pieceIdx p := v]]\<rparr>"

abbreviation (input) WHITE_OO :: int where "WHITE_OO \<equiv> 1"
abbreviation (input) WHITE_OOO :: int where "WHITE_OOO \<equiv> 2"
abbreviation (input) BLACK_OO :: int where "BLACK_OO \<equiv> 4"
abbreviation (input) BLACK_OOO :: int where "BLACK_OOO \<equiv> 8"
abbreviation (input) NO_CASTLING :: int where "NO_CASTLING \<equiv> 0"
abbreviation (input) ANY_CASTLING :: int where "ANY_CASTLING \<equiv> 15"

definition pieceTypes :: "PieceType list" where
  "pieceTypes = [PAWN, KNIGHT, BISHOP, ROOK, QUEEN, KING]"

text \<open>
  The inner loop of \<^verbatim>\<open>updateCombinedBitboards\<close>: \<^verbatim>\<open>_allPieces[color]\<close> starts at 0 and
  takes the six boards of the colour by \<^verbatim>\<open>|=\<close>.
\<close>

definition combined :: "Board \<Rightarrow> Color \<Rightarrow> Bitboard" where
  "combined b c = foldl (\<lambda>acc p. acc OR getPieces b c p) 0 pieceTypes"

definition updateCombinedBitboards :: "Board \<Rightarrow> Board" where
  "updateCombinedBitboards b =
     b\<lparr>allPieces := [combined b WHITE, combined b BLACK],
       occupiedSquares := combined b WHITE OR combined b BLACK\<rparr>"

definition reset :: "Board \<Rightarrow> Board" where
  "reset b = (updateCombinedBitboards
     (b\<lparr>pieces :=
          [[0x000000000000FF00, 0x0000000000000042, 0x0000000000000024,
            0x0000000000000081, 0x0000000000000008, 0x0000000000000010],
           [0x00FF000000000000, 0x4200000000000000, 0x2400000000000000,
            0x8100000000000000, 0x0800000000000000, 0x1000000000000000]]\<rparr>))
     \<lparr>sideToMove := WHITE, castlingRights := ANY_CASTLING, enPassantSquare := NO_SQUARE,
      halfmoveClock := 0, fullmoveNumber := 1\<rparr>"

text \<open>
  The constructor \<^verbatim>\<open>Board()\<close> sets \<^verbatim>\<open>_chess960\<close> to false and calls \<^verbatim>\<open>reset\<close>, which
  assigns every other member.
\<close>

definition Board_new :: Board where
  "Board_new = reset \<lparr>pieces = [], allPieces = [], occupiedSquares = 0, sideToMove = WHITE,
     castlingRights = 0, enPassantSquare = NO_SQUARE, halfmoveClock = 0, fullmoveNumber = 0,
     chess960 = False\<rparr>"

text \<open>
  \<^verbatim>\<open>pieceAt\<close> returns the piece type and, through its reference parameter, the colour.
  When \<^verbatim>\<open>_allPieces\<close> has the square for a colour but none of the six boards of that
  colour has it, control leaves the \<^verbatim>\<open>if\<close> and reaches the final "empty" return.
\<close>

definition pieceAt :: "Board \<Rightarrow> Square \<Rightarrow> PieceType \<times> Color" where
  "pieceAt b sq =
     (if allPieces b ! colorIdx WHITE AND sqBit sq \<noteq> 0
      then (case find (\<lambda>p. getPieces b WHITE p AND sqBit sq \<noteq> 0) pieceTypes of
              Some p \<Rightarrow> (p, WHITE)
            | None \<Rightarrow> (NO_PIECE_TYPE, NO_COLOR))
      else if allPieces b ! colorIdx BLACK AND sqBit sq \<noteq> 0
      then (case find (\<lambda>p. getPieces b BLACK p AND sqBit sq \<noteq> 0) pieceTypes of
              Some p \<Rightarrow> (p, BLACK)
            | None \<Rightarrow> (NO_PIECE_TYPE, NO_COLOR))
      else (NO_PIECE_TYPE, NO_COLOR))"

definition findKing :: "Board \<Rightarrow> Color \<Rightarrow> Square" where
  "findKing b color = lsb (getPieces b color KING)"

definition isSquareAttacked :: "Board \<Rightarrow> Square \<Rightarrow> Color \<Rightarrow> bool" where
  "isSquareAttacked b sq attackingColor \<longleftrightarrow>
     getPieceAttacks PAWN sq (opposite attackingColor) (occupiedSquares b) AND
       getPieces b attackingColor PAWN \<noteq> 0 \<or>
     getPieceAttacks KNIGHT sq NO_COLOR (occupiedSquares b) AND
       getPieces b attackingColor KNIGHT \<noteq> 0 \<or>
     getPieceAttacks BISHOP sq NO_COLOR (occupiedSquares b) AND
       getPieces b attackingColor BISHOP \<noteq> 0 \<or>
     getPieceAttacks ROOK sq NO_COLOR (occupiedSquares b) AND
       getPieces b attackingColor ROOK \<noteq> 0 \<or>
     getPieceAttacks QUEEN sq NO_COLOR (occupiedSquares b) AND
       getPieces b attackingColor QUEEN \<noteq> 0 \<or>
     getPieceAttacks KING sq NO_COLOR (occupiedSquares b) AND
       getPieces b attackingColor KING \<noteq> 0"

definition isInCheck :: "Board \<Rightarrow> Color \<Rightarrow> bool" where
  "isInCheck b color \<longleftrightarrow>
     findKing b color \<noteq> NO_SQUARE \<and> isSquareAttacked b (findKing b color) (opposite color)"

subsection \<open>makeMove\<close>

text \<open>
  \<^verbatim>\<open>_pieces[c][p] &= ~(1ULL << sq)\<close> and \<^verbatim>\<open>_pieces[c][p] |= (1ULL << sq)\<close>.
\<close>

definition clearSq :: "Board \<Rightarrow> Color \<Rightarrow> PieceType \<Rightarrow> Square \<Rightarrow> Board" where
  "clearSq b c p sq = setPieces b c p (getPieces b c p AND NOT (sqBit sq))"

definition setSq :: "Board \<Rightarrow> Color \<Rightarrow> PieceType \<Rightarrow> Square \<Rightarrow> Board" where
  "setSq b c p sq = setPieces b c p (getPieces b c p OR sqBit sq)"

text \<open>
  The three statements that move a piece and remove what stands on the destination, as
  they appear in the branch of the ordinary king move and in the branch of the regular
  piece move: clear the origin, clear the destination on the board of the captured piece
  if there is one, set the destination.
\<close>

definition movePiece ::
  "Board \<Rightarrow> Move \<Rightarrow> Color \<Rightarrow> PieceType \<Rightarrow> bool \<Rightarrow> Color \<Rightarrow> PieceType \<Rightarrow> Board" where
  "movePiece b move movingColor movingPiece isCapture capturedColor capturedPiece =
     setSq
       (if isCapture
        then clearSq (clearSq b movingColor movingPiece (from_sq move))
               capturedColor capturedPiece (to_sq move)
        else clearSq b movingColor movingPiece (from_sq move))
       movingColor movingPiece (to_sq move)"

text \<open>
  The four statements of a castling branch: king off its square and onto the target, rook
  off its corner and onto the square next to the king.
\<close>

definition castle :: "Board \<Rightarrow> Color \<Rightarrow> Square \<Rightarrow> Square \<Rightarrow> Square \<Rightarrow> Square \<Rightarrow> Board" where
  "castle b c kingFrom kingTo rookFrom rookTo =
     setSq (clearSq (setSq (clearSq b c KING kingFrom) c KING kingTo) c ROOK rookFrom)
       c ROOK rookTo"

text \<open>\<^verbatim>\<open>if (cond) _castlingRights &= ~rights;\<close>\<close>

definition clearRights :: "bool \<Rightarrow> int \<Rightarrow> Board \<Rightarrow> Board" where
  "clearRights cond rights b =
     (if cond then b\<lparr>castlingRights := castlingRights b AND NOT rights\<rparr> else b)"

text \<open>
  The two blocks that open the branch of the regular piece move: "update castling rights
  when rook moves" and "check for rook captures".
\<close>

definition rookMoveRights :: "Board \<Rightarrow> Move \<Rightarrow> PieceType \<Rightarrow> Board" where
  "rookMoveRights b move movingPiece =
     (if movingPiece = ROOK
      then (if sideToMove b = WHITE
            then clearRights (from_sq move = H1) WHITE_OO
                   (clearRights (from_sq move = A1) WHITE_OOO b)
            else clearRights (from_sq move = H8) BLACK_OO
                   (clearRights (from_sq move = A8) BLACK_OOO b))
      else b)"

definition rookCaptureRights :: "Board \<Rightarrow> Move \<Rightarrow> PieceType \<Rightarrow> Color \<Rightarrow> Board" where
  "rookCaptureRights b move capturedPiece capturedColor =
     (if capturedColor \<noteq> NO_COLOR \<and> capturedPiece = ROOK
      then (if capturedColor = WHITE
            then clearRights (to_sq move = H1) WHITE_OO
                   (clearRights (to_sq move = A1) WHITE_OOO b)
            else clearRights (to_sq move = H8) BLACK_OO
                   (clearRights (to_sq move = A8) BLACK_OOO b))
      else b)"

text \<open>
  The outcome of the branch that handles the move: an early \<^verbatim>\<open>return false\<close> (the
  castling preconditions, checked before anything is written), the position with the
  piece boards and the irreversible state updated, or a shift count or enumeration value
  out of range, for which C++ defines no behaviour: the en passant branch shifts by
  \<^verbatim>\<open>_enPassantSquare - 8\<close> or \<^verbatim>\<open>+ 8\<close>, the double push branch of black casts
  \<^verbatim>\<open>move.from - 8\<close> to \<^verbatim>\<open>Square\<close>.
\<close>

datatype Outcome = ReturnFalse | Continue Board | UndefinedBehaviour

text \<open>
  The chain \<^verbatim>\<open>if (movingPiece == KING) ... else if ... else ...\<close> of \<^verbatim>\<open>makeMove\<close>, in
  the order of the source: castling (four cases) and the ordinary king move, en passant
  capture, promotion, pawn double push, regular piece move. \<^verbatim>\<open>isCapture\<close> is
  \<open>capturedColor \<noteq> NO_COLOR\<close>.
\<close>

definition makeMove_branches ::
  "Board \<Rightarrow> Move \<Rightarrow> PieceType \<Rightarrow> Color \<Rightarrow> PieceType \<Rightarrow> Color \<Rightarrow> Outcome" where
  "makeMove_branches b move movingPiece movingColor capturedPiece capturedColor =
     (if movingPiece = KING then
        (if from_sq move = E1 \<and> to_sq move = G1 \<and> sideToMove b = WHITE then
           (if castlingRights b AND WHITE_OO = 0 \<or>
               occupiedSquares b AND (sqBit F1 OR sqBit G1) \<noteq> 0 \<or>
               isInCheck b WHITE \<or> isSquareAttacked b F1 BLACK
            then ReturnFalse
            else Continue (clearRights True (WHITE_OO OR WHITE_OOO) (castle b WHITE E1 G1 H1 F1)))
         else if from_sq move = E1 \<and> to_sq move = C1 \<and> sideToMove b = WHITE then
           (if castlingRights b AND WHITE_OOO = 0 \<or>
               occupiedSquares b AND (sqBit B1 OR sqBit C1 OR sqBit D1) \<noteq> 0 \<or>
               isInCheck b WHITE \<or> isSquareAttacked b D1 BLACK
            then ReturnFalse
            else Continue (clearRights True (WHITE_OO OR WHITE_OOO) (castle b WHITE E1 C1 A1 D1)))
         else if from_sq move = E8 \<and> to_sq move = G8 \<and> sideToMove b = BLACK then
           (if castlingRights b AND BLACK_OO = 0 \<or>
               occupiedSquares b AND (sqBit F8 OR sqBit G8) \<noteq> 0 \<or>
               isInCheck b BLACK \<or> isSquareAttacked b F8 WHITE
            then ReturnFalse
            else Continue (clearRights True (BLACK_OO OR BLACK_OOO) (castle b BLACK E8 G8 H8 F8)))
         else if from_sq move = E8 \<and> to_sq move = C8 \<and> sideToMove b = BLACK then
           (if castlingRights b AND BLACK_OOO = 0 \<or>
               occupiedSquares b AND (sqBit B8 OR sqBit C8 OR sqBit D8) \<noteq> 0 \<or>
               isInCheck b BLACK \<or> isSquareAttacked b D8 WHITE
            then ReturnFalse
            else Continue (clearRights True (BLACK_OO OR BLACK_OOO) (castle b BLACK E8 C8 A8 D8)))
         else
           Continue (movePiece
             (if sideToMove b = WHITE then clearRights True (WHITE_OO OR WHITE_OOO) b
              else clearRights True (BLACK_OO OR BLACK_OOO) b)
             move movingColor movingPiece (capturedColor \<noteq> NO_COLOR)
             capturedColor capturedPiece))
      else if movingPiece = PAWN \<and> to_sq move = enPassantSquare b then
        (if (if sideToMove b = WHITE then enPassantSquare b < 8 else 63 < enPassantSquare b + 8)
         then UndefinedBehaviour
         else Continue
           ((setSq
              (clearSq
                (clearSq b (opposite (sideToMove b)) PAWN
                   (if sideToMove b = WHITE then enPassantSquare b - 8
                    else enPassantSquare b + 8))
                movingColor movingPiece (from_sq move))
              movingColor movingPiece (to_sq move))
            \<lparr>enPassantSquare := NO_SQUARE\<rparr>))
      else if movingPiece = PAWN \<and> promotion move \<noteq> NO_PIECE_TYPE then
        Continue
          (setSq
            (if capturedColor \<noteq> NO_COLOR
             then clearSq (clearSq b movingColor PAWN (from_sq move))
                    capturedColor capturedPiece (to_sq move)
             else clearSq b movingColor PAWN (from_sq move))
            movingColor (promotion move) (to_sq move))
      else if movingPiece = PAWN \<and>
              \<bar>int (squareRank (to_sq move)) - int (squareRank (from_sq move))\<bar> = 2 then
        (if sideToMove b \<noteq> WHITE \<and> from_sq move < 8 then UndefinedBehaviour
         else Continue
           ((setSq (clearSq b movingColor movingPiece (from_sq move))
               movingColor movingPiece (to_sq move))
            \<lparr>enPassantSquare :=
               (if sideToMove b = WHITE then from_sq move + 8 else from_sq move - 8)\<rparr>))
      else
        Continue
          ((movePiece
             (rookCaptureRights (rookMoveRights b move movingPiece) move capturedPiece capturedColor)
             move movingColor movingPiece (capturedColor \<noteq> NO_COLOR)
             capturedColor capturedPiece)
           \<lparr>enPassantSquare := NO_SQUARE\<rparr>))"

abbreviation (input) INT_MAX :: int where "INT_MAX \<equiv> 2147483647"

text \<open>
  \<^verbatim>\<open>makeMove\<close> returns its \<^verbatim>\<open>bool\<close> together with the position it leaves behind: a
  move rejected for self-check has already been written to the boards. \<open>None\<close> stands
  for an execution that C++ leaves undefined: \<^verbatim>\<open>1ULL << sq\<close> in \<^verbatim>\<open>pieceAt\<close> for a square
  above 64 (64 itself is \<^verbatim>\<open>NO_SQUARE\<close> and rejected by \<^verbatim>\<open>isValid\<close>), a side to move
  of \<^verbatim>\<open>NO_COLOR\<close> with an empty origin square (the branches then index \<^verbatim>\<open>_pieces\<close> out of
  range), the cases of \<open>makeMove_branches\<close>, and \<^verbatim>\<open>++\<close> on a clock that holds
  \<^verbatim>\<open>INT_MAX\<close>.

  The function is written as its successive parts, last part first: the fullmove number,
  the side to move and the halfmove clock, the self-check test after
  \<^verbatim>\<open>updateCombinedBitboards\<close>, the branches, the two calls of \<^verbatim>\<open>pieceAt\<close>.
\<close>

definition makeMove_fullmove :: "Board \<Rightarrow> (bool \<times> Board) option" where
  "makeMove_fullmove b =
     (if sideToMove b = WHITE
      then (if fullmoveNumber b = INT_MAX then None
            else Some (True, b\<lparr>fullmoveNumber := fullmoveNumber b + 1\<rparr>))
      else Some (True, b))"

definition makeMove_state :: "PieceType \<Rightarrow> bool \<Rightarrow> Board \<Rightarrow> (bool \<times> Board) option" where
  "makeMove_state movingPiece isCapture b =
     (if movingPiece = PAWN \<or> isCapture
      then makeMove_fullmove
             (b\<lparr>sideToMove := (if sideToMove b = WHITE then BLACK else WHITE),
                halfmoveClock := 0\<rparr>)
      else if halfmoveClock b = INT_MAX then None
      else makeMove_fullmove
             (b\<lparr>sideToMove := (if sideToMove b = WHITE then BLACK else WHITE),
                halfmoveClock := halfmoveClock b + 1\<rparr>))"

definition makeMove_check :: "PieceType \<Rightarrow> bool \<Rightarrow> Board \<Rightarrow> (bool \<times> Board) option" where
  "makeMove_check movingPiece isCapture b =
     (if isInCheck b (sideToMove b) then Some (False, b)
      else makeMove_state movingPiece isCapture b)"

fun makeMove_dispatch ::
  "PieceType \<Rightarrow> bool \<Rightarrow> Board \<Rightarrow> Outcome \<Rightarrow> (bool \<times> Board) option" where
  "makeMove_dispatch movingPiece isCapture b ReturnFalse = Some (False, b)"
| "makeMove_dispatch movingPiece isCapture b UndefinedBehaviour = None"
| "makeMove_dispatch movingPiece isCapture b (Continue b1) =
     makeMove_check movingPiece isCapture (updateCombinedBitboards b1)"

fun makeMove_captured ::
  "Move \<Rightarrow> Board \<Rightarrow> PieceType \<Rightarrow> Color \<Rightarrow> PieceType \<times> Color \<Rightarrow> (bool \<times> Board) option" where
  "makeMove_captured move b movingPiece movingColor (capturedPiece, capturedColor) =
     makeMove_dispatch movingPiece (capturedColor \<noteq> NO_COLOR) b
       (makeMove_branches b move movingPiece movingColor capturedPiece capturedColor)"

fun makeMove_moving :: "Move \<Rightarrow> Board \<Rightarrow> PieceType \<times> Color \<Rightarrow> (bool \<times> Board) option" where
  "makeMove_moving move b (movingPiece, movingColor) =
     (if movingColor \<noteq> sideToMove b then Some (False, b)
      else if movingColor = NO_COLOR then None
      else if 64 < to_sq move then None
      else makeMove_captured move b movingPiece movingColor (pieceAt b (to_sq move)))"

definition makeMove :: "Move \<Rightarrow> Board \<Rightarrow> (bool \<times> Board) option" where
  "makeMove move b =
     (if \<not> isValid move then Some (False, b)
      else if 64 < from_sq move then None
      else makeMove_moving move b (pieceAt b (from_sq move)))"

section \<open>Move generation (movegen.cpp)\<close>

text \<open>
  The squares visited by a loop of the form
  \<^verbatim>\<open>while (bb) { Square sq = lsb(bb); ...; bb &= bb - 1; }\<close>, in the order of the visits.
\<close>

function bitSquares :: "Bitboard \<Rightarrow> Square list" where
  "bitSquares bb = (if bb \<noteq> 0 then lsb bb # bitSquares (bb AND (bb - 1)) else [])"
  by pat_completeness auto
termination
  by (relation "measure unat") (simp_all add: and_pred_less)

definition mkMove :: "Square \<Rightarrow> Square \<Rightarrow> PieceType \<Rightarrow> Move" where
  "mkMove f t p = \<lparr>from_sq = f, to_sq = t, promotion = p\<rparr>"

definition promotions :: "Square \<Rightarrow> Square \<Rightarrow> Move list" where
  "promotions f t = [mkMove f t QUEEN, mkMove f t ROOK, mkMove f t BISHOP, mkMove f t KNIGHT]"

abbreviation (input) RANK_1 :: nat where "RANK_1 \<equiv> 0"
abbreviation (input) RANK_2 :: nat where "RANK_2 \<equiv> 1"
abbreviation (input) RANK_7 :: nat where "RANK_7 \<equiv> 6"
abbreviation (input) RANK_8 :: nat where "RANK_8 \<equiv> 7"

text \<open>The body of the pawn loop for the pawn on \<open>f\<close>: pushes, captures, en passant.\<close>

definition pawnMoves :: "Board \<Rightarrow> Color \<Rightarrow> Square \<Rightarrow> Move list" where
  "pawnMoves b us f =
     (let occupied = occupiedSquares b;
          to1 = (if us = WHITE then f + 8 else f - 8);
          pushes =
            (if occupied AND sqBit to1 = 0
             then (if us = WHITE \<and> squareRank f = RANK_7 \<or> us = BLACK \<and> squareRank f = RANK_2
                   then promotions f to1
                   else [mkMove f to1 NO_PIECE_TYPE]) @
                  (if us = WHITE \<and> squareRank f = RANK_2 \<or> us = BLACK \<and> squareRank f = RANK_7
                   then (let to2 = (if us = WHITE then to1 + 8 else to1 - 8)
                         in if occupied AND sqBit to2 = 0 then [mkMove f to2 NO_PIECE_TYPE]
                            else [])
                   else [])
             else []);
          captures =
            concat (map
              (\<lambda>t. if us = WHITE \<and> squareRank t = RANK_8 \<or> us = BLACK \<and> squareRank t = RANK_1
                    then promotions f t
                    else [mkMove f t NO_PIECE_TYPE])
              (bitSquares (PAWN_ATTACKS us f AND allPieces b ! colorIdx (opposite us))));
          enPassant =
            (if enPassantSquare b \<noteq> NO_SQUARE
             then (if PAWN_ATTACKS us f AND sqBit (enPassantSquare b) \<noteq> 0
                   then [mkMove f (enPassantSquare b) NO_PIECE_TYPE]
                   else [])
             else [])
      in pushes @ captures @ enPassant)"

text \<open>
  The inner loop shared by knights, bishops, rooks, queens and the king: one plain move
  to every square of \<open>targets\<close>.
\<close>

definition targetMoves :: "Square \<Rightarrow> Bitboard \<Rightarrow> Move list" where
  "targetMoves f targets = map (\<lambda>t. mkMove f t NO_PIECE_TYPE) (bitSquares targets)"

definition castlingMoves :: "Board \<Rightarrow> Color \<Rightarrow> Move list" where
  "castlingMoves b us =
     (let occupied = occupiedSquares b in
      if us = WHITE
      then (if castlingRights b AND WHITE_OO \<noteq> 0 \<and>
               occupied AND (sqBit F1 OR sqBit G1) = 0 \<and>
               \<not> isSquareAttacked b E1 BLACK \<and> \<not> isSquareAttacked b F1 BLACK
            then [mkMove E1 G1 NO_PIECE_TYPE] else []) @
           (if castlingRights b AND WHITE_OOO \<noteq> 0 \<and>
               occupied AND (sqBit B1 OR sqBit C1 OR sqBit D1) = 0 \<and>
               \<not> isSquareAttacked b E1 BLACK \<and> \<not> isSquareAttacked b D1 BLACK
            then [mkMove E1 C1 NO_PIECE_TYPE] else [])
      else (if castlingRights b AND BLACK_OO \<noteq> 0 \<and>
               occupied AND (sqBit F8 OR sqBit G8) = 0 \<and>
               \<not> isSquareAttacked b E8 WHITE \<and> \<not> isSquareAttacked b F8 WHITE
            then [mkMove E8 G8 NO_PIECE_TYPE] else []) @
           (if castlingRights b AND BLACK_OOO \<noteq> 0 \<and>
               occupied AND (sqBit B8 OR sqBit C8 OR sqBit D8) = 0 \<and>
               \<not> isSquareAttacked b E8 WHITE \<and> \<not> isSquareAttacked b D8 WHITE
            then [mkMove E8 C8 NO_PIECE_TYPE] else []))"

text \<open>
  \<open>None\<close> where C++ defines no behaviour: a side to move of \<^verbatim>\<open>NO_COLOR\<close> indexes
  \<^verbatim>\<open>_allPieces\<close> out of range; a pawn of the side to move on its last rank makes the pawn
  loop shift by \<^verbatim>\<open>from + 8\<close> above 63 (white) or cast \<^verbatim>\<open>from - 8\<close> below 0 (black); an en
  passant square above 64 is shifted by in the pawn loop.
\<close>

definition generatePseudoLegalMoves :: "Board \<Rightarrow> Move list option" where
  "generatePseudoLegalMoves b =
     (let us = sideToMove b in
      if us = NO_COLOR then None
      else
        let ourPieces = allPieces b ! colorIdx us;
            occupied = occupiedSquares b;
            pawns = getPieces b us PAWN
        in
        if (\<exists>f \<in> set (bitSquares pawns). if us = WHITE then 63 < f + 8 else f < 8) \<or>
           pawns \<noteq> 0 \<and> 64 < enPassantSquare b
        then None
        else Some (
          concat (map (pawnMoves b us) (bitSquares pawns)) @
          concat (map (\<lambda>f. targetMoves f (KNIGHT_ATTACKS f AND NOT ourPieces))
                    (bitSquares (getPieces b us KNIGHT))) @
          concat (map (\<lambda>f. targetMoves f (generateBishopAttacks f occupied AND NOT ourPieces))
                    (bitSquares (getPieces b us BISHOP))) @
          concat (map (\<lambda>f. targetMoves f (generateRookAttacks f occupied AND NOT ourPieces))
                    (bitSquares (getPieces b us ROOK))) @
          concat (map (\<lambda>f. targetMoves f ((generateBishopAttacks f occupied OR
                                            generateRookAttacks f occupied) AND NOT ourPieces))
                    (bitSquares (getPieces b us QUEEN))) @
          (let king = getPieces b us KING in
           if king \<noteq> 0
           then targetMoves (lsb king) (KING_ATTACKS (lsb king) AND NOT ourPieces) @
                castlingMoves b us
           else [])))"

text \<open>
  \<^verbatim>\<open>filterLegalMoves\<close> tries every move on a copy of the board and keeps those for which
  \<^verbatim>\<open>makeMove\<close> returns true.
\<close>

fun filterLegalMoves :: "Board \<Rightarrow> Move list \<Rightarrow> Move list option" where
  "filterLegalMoves b [] = Some []"
| "filterLegalMoves b (m # ms) =
     (case makeMove m b of
        None \<Rightarrow> None
      | Some (ok, boardCopy) \<Rightarrow>
          (case filterLegalMoves b ms of
             None \<Rightarrow> None
           | Some rest \<Rightarrow> Some (if ok then m # rest else rest)))"

definition generateLegalMoves :: "Board \<Rightarrow> Move list option" where
  "generateLegalMoves b =
     (case generatePseudoLegalMoves b of
        None \<Rightarrow> None
      | Some pseudoLegalMoves \<Rightarrow> filterLegalMoves b pseudoLegalMoves)"

section \<open>Sequences of accepted moves\<close>

text \<open>
  The position reached from \<open>b\<close> by a list of moves, each applied by \<^verbatim>\<open>makeMove\<close> to the
  position the previous one left, as the driver's \<^verbatim>\<open>applyMoves\<close> does for
  \<^verbatim>\<open>position startpos moves ...\<close>; here every move has to be accepted, otherwise there is
  no result.
\<close>

fun accepted :: "(bool \<times> Board) option \<Rightarrow> Board option" where
  "accepted (Some (True, b)) = Some b"
| "accepted _ = None"

fun thenMove :: "Board option \<Rightarrow> Move \<Rightarrow> Board option" where
  "thenMove None m = None"
| "thenMove (Some b) m = accepted (makeMove m b)"

definition playMoves :: "Move list \<Rightarrow> Board \<Rightarrow> Board option" where
  "playMoves ms b = foldl thenMove (Some b) ms"

section \<open>FEN (board.cpp)\<close>

subsection \<open>Character classes and number conversion of the C library\<close>

definition isspace :: "char \<Rightarrow> bool" where
  "isspace c \<longleftrightarrow> c = CHR '' '' \<or> (9::nat) \<le> of_char c \<and> (of_char c :: nat) \<le> 13"

definition isdigit :: "char \<Rightarrow> bool" where
  "isdigit c \<longleftrightarrow> (of_char CHR ''0'' :: nat) \<le> of_char c \<and> (of_char c :: nat) \<le> of_char CHR ''9''"

definition isupper :: "char \<Rightarrow> bool" where
  "isupper c \<longleftrightarrow> (of_char CHR ''A'' :: nat) \<le> of_char c \<and> (of_char c :: nat) \<le> of_char CHR ''Z''"

definition tolower :: "char \<Rightarrow> char" where
  "tolower c = (if isupper c then char_of (of_char c + (32::nat)) else c)"

definition toupper :: "char \<Rightarrow> char" where
  "toupper c =
     (if (of_char CHR ''a'' :: nat) \<le> of_char c \<and> (of_char c :: nat) \<le> of_char CHR ''z''
      then char_of (of_char c - (32::nat)) else c)"

text \<open>
  \<^verbatim>\<open>ss >> token\<close> on a string stream: skip white space, then take the characters up to
  the next white space. At the end of the input the token stays empty.
\<close>

definition readToken :: "string \<Rightarrow> string \<times> string" where
  "readToken s =
     (let s1 = dropWhile isspace s
      in (takeWhile (\<lambda>c. \<not> isspace c) s1, dropWhile (\<lambda>c. \<not> isspace c) s1))"

abbreviation (input) INT_MIN :: int where "INT_MIN \<equiv> - 2147483648"

text \<open>
  \<^verbatim>\<open>std::stoi\<close>: optional white space, an optional sign, then decimal digits; what follows
  the digits is ignored. It throws \<^verbatim>\<open>std::invalid_argument\<close> when there is no digit and
  \<^verbatim>\<open>std::out_of_range\<close> when the value does not fit \<^verbatim>\<open>int\<close>; the caller catches both,
  so both are \<open>None\<close> here.
\<close>

definition digitsValue :: "string \<Rightarrow> int" where
  "digitsValue ds = foldl (\<lambda>acc c. acc * 10 + (int (of_char c) - int (of_char CHR ''0''))) 0 ds"

definition stoi :: "string \<Rightarrow> int option" where
  "stoi str =
     (let s1 = dropWhile isspace str;
          negative = (s1 \<noteq> [] \<and> hd s1 = CHR ''-'');
          s2 = (if s1 \<noteq> [] \<and> (hd s1 = CHR ''-'' \<or> hd s1 = CHR ''+'') then tl s1 else s1);
          ds = takeWhile isdigit s2;
          v = (if negative then - digitsValue ds else digitsValue ds)
      in if ds = [] then None
         else if v < INT_MIN \<or> INT_MAX < v then None
         else Some v)"

text \<open>\<^verbatim>\<open>fen << n\<close> for an \<^verbatim>\<open>int\<close>: its decimal digits, with a minus sign when negative.\<close>

fun showNat :: "nat \<Rightarrow> string" where
  "showNat n =
     (if n < 10 then [char_of (of_char CHR ''0'' + n)]
      else showNat (n div 10) @ [char_of (of_char CHR ''0'' + n mod 10)])"

declare showNat.simps [simp del]

definition showInt :: "int \<Rightarrow> string" where
  "showInt i = (if i < 0 then CHR ''-'' # showNat (nat (- i)) else showNat (nat i))"

subsection \<open>setFromFen\<close>

definition pieceOfLetter :: "char \<Rightarrow> PieceType option" where
  "pieceOfLetter c =
     (if c = CHR ''p'' then Some PAWN
      else if c = CHR ''n'' then Some KNIGHT
      else if c = CHR ''b'' then Some BISHOP
      else if c = CHR ''r'' then Some ROOK
      else if c = CHR ''q'' then Some QUEEN
      else if c = CHR ''k'' then Some KING
      else None)"

text \<open>
  The loop over the placement field, with the local \<^verbatim>\<open>int\<close>s \<^verbatim>\<open>rank\<close> and \<^verbatim>\<open>file\<close>. The
  result is \<open>Some (True, b)\<close> when the loop runs to the end, \<open>Some (False, b)\<close> at
  \<^verbatim>\<open>return false\<close> with the boards as written so far, and \<open>None\<close> where C++ defines no
  behaviour: a byte above 127 passed as a negative \<^verbatim>\<open>char\<close> to \<^verbatim>\<open>isdigit\<close>, overflow
  of the two \<^verbatim>\<open>int\<close>s, a value cast to \<^verbatim>\<open>Rank\<close> or \<^verbatim>\<open>File\<close> outside 0 to 15 or to
  \<^verbatim>\<open>Square\<close> outside 0 to 127 (the value ranges of these enumerations), and
  \<^verbatim>\<open>1ULL << sq\<close> for a square above 63.
\<close>

fun parsePlacement :: "string \<Rightarrow> int \<Rightarrow> int \<Rightarrow> Board \<Rightarrow> (bool \<times> Board) option" where
  "parsePlacement [] rank file b = Some (True, b)"
| "parsePlacement (c # cs) rank file b =
     (if (127::nat) < of_char c then None
      else if c = CHR ''/'' then
        (if rank = INT_MIN then None else parsePlacement cs (rank - 1) 0 b)
      else if isdigit c then
        (let d = int (of_char c) - int (of_char CHR ''0'')
         in if INT_MAX < file + d then None else parsePlacement cs rank (file + d) b)
      else if \<not> (0 \<le> rank \<and> rank \<le> 15 \<and> 0 \<le> file \<and> file \<le> 15 \<and> rank * 8 + file \<le> 127)
      then None
      else
        let sq = squareFromRankFile (nat rank) (nat file);
            color = (if isupper c then WHITE else BLACK)
        in case pieceOfLetter (tolower c) of
             None \<Rightarrow> Some (False, b)
           | Some pieceType \<Rightarrow>
               if 63 < sq then None
               else parsePlacement cs rank (file + 1)
                      (setPieces b color pieceType (getPieces b color pieceType OR sqBit sq)))"

text \<open>
  The castling field. With \<^verbatim>\<open>_chess960\<close> set, the letters A to H and a to h are accepted
  and add \<^verbatim>\<open>NO_CASTLING\<close>, that is nothing.
\<close>

fun parseCastling :: "string \<Rightarrow> Board \<Rightarrow> bool \<times> Board" where
  "parseCastling [] b = (True, b)"
| "parseCastling (c # cs) b =
     (if chess960 b then
        (if (of_char CHR ''A'' :: nat) \<le> of_char c \<and> (of_char c :: nat) \<le> of_char CHR ''H''
         then parseCastling cs (b\<lparr>castlingRights := castlingRights b OR NO_CASTLING\<rparr>)
         else if (of_char CHR ''a'' :: nat) \<le> of_char c \<and> (of_char c :: nat) \<le> of_char CHR ''h''
         then parseCastling cs (b\<lparr>castlingRights := castlingRights b OR NO_CASTLING\<rparr>)
         else (False, b))
      else
        (if c = CHR ''K'' then parseCastling cs (b\<lparr>castlingRights := castlingRights b OR WHITE_OO\<rparr>)
         else if c = CHR ''Q'' then parseCastling cs (b\<lparr>castlingRights := castlingRights b OR WHITE_OOO\<rparr>)
         else if c = CHR ''k'' then parseCastling cs (b\<lparr>castlingRights := castlingRights b OR BLACK_OO\<rparr>)
         else if c = CHR ''q'' then parseCastling cs (b\<lparr>castlingRights := castlingRights b OR BLACK_OOO\<rparr>)
         else (False, b)))"

text \<open>
  The en passant field other than \<^verbatim>\<open>"-"\<close>: \<^verbatim>\<open>enPassant[0] - 'a'\<close> cast to \<^verbatim>\<open>File\<close> and
  \<^verbatim>\<open>enPassant[1] - '1'\<close> cast to \<^verbatim>\<open>Rank\<close>; \<^verbatim>\<open>enPassant[1]\<close> of a string of length 1 is
  the terminating zero. \<open>None\<close> when a cast leaves the value range of its enumeration.
  No other check is made: the square may lie off the board.
\<close>

definition parseEnPassant :: "string \<Rightarrow> Square option" where
  "parseEnPassant enPassant =
     (let c0 = (of_char (enPassant ! 0) :: nat);
          c1 = (if 1 < length enPassant then (of_char (enPassant ! 1) :: nat) else 0);
          file = int c0 - int (of_char CHR ''a'');
          rank = int c1 - int (of_char CHR ''1'')
      in if 127 < c0 \<or> 127 < c1 then None
         else if \<not> (0 \<le> rank \<and> rank \<le> 15 \<and> 0 \<le> file \<and> file \<le> 15 \<and> rank * 8 + file \<le> 127)
         then None
         else Some (squareFromRankFile (nat rank) (nat file)))"

text \<open>
  The six fields: \<^verbatim>\<open>ss >> board >> activeColor >> castling >> enPassant >> halfmove >> fullmove\<close>.
  \<open>fenField n\<close> is the token read by the extraction number \<open>n\<close>, counted from 0.
\<close>

fun fenField :: "nat \<Rightarrow> string \<Rightarrow> string" where
  "fenField 0 fen = fst (readToken fen)"
| "fenField (Suc n) fen = fenField n (snd (readToken fen))"

text \<open>The loops at the head of \<^verbatim>\<open>setFromFen\<close> that clear all boards.\<close>

definition clearBoards :: "Board \<Rightarrow> Board" where
  "clearBoards b =
     b\<lparr>pieces := [[0, 0, 0, 0, 0, 0], [0, 0, 0, 0, 0, 0]], allPieces := [0, 0],
       occupiedSquares := 0\<rparr>"

text \<open>
  \<^verbatim>\<open>setFromFen\<close> returns its \<^verbatim>\<open>bool\<close> with the position it leaves behind. It starts by
  clearing the piece boards and the combined boards, and it writes each member as soon as
  its field is parsed. \<open>None\<close> is an execution without defined behaviour, from
  \<open>parsePlacement\<close> or \<open>parseEnPassant\<close>.

  The function is written as its successive parts, last part first: the two clocks inside
  the \<^verbatim>\<open>try\<close> block, the en passant square, the castling rights, the side to move after
  the placement loop, and the head with the check for empty fields.
\<close>

fun setFromFen_fullmove :: "Board \<Rightarrow> int option \<Rightarrow> (bool \<times> Board) option" where
  "setFromFen_fullmove b None = Some (False, b)"
| "setFromFen_fullmove b (Some n) =
     Some (True, updateCombinedBitboards (b\<lparr>fullmoveNumber := n\<rparr>))"

fun setFromFen_halfmove :: "string \<Rightarrow> Board \<Rightarrow> int option \<Rightarrow> (bool \<times> Board) option" where
  "setFromFen_halfmove fen b None = Some (False, b)"
| "setFromFen_halfmove fen b (Some h) =
     setFromFen_fullmove (b\<lparr>halfmoveClock := h\<rparr>) (stoi (fenField 5 fen))"

fun setFromFen_enPassant :: "string \<Rightarrow> Board \<Rightarrow> Square option \<Rightarrow> (bool \<times> Board) option" where
  "setFromFen_enPassant fen b None = None"
| "setFromFen_enPassant fen b (Some ep) =
     setFromFen_halfmove fen (b\<lparr>enPassantSquare := ep\<rparr>) (stoi (fenField 4 fen))"

fun setFromFen_castling :: "string \<Rightarrow> bool \<times> Board \<Rightarrow> (bool \<times> Board) option" where
  "setFromFen_castling fen (False, b) = Some (False, b)"
| "setFromFen_castling fen (True, b) =
     setFromFen_enPassant fen b
       (if fenField 3 fen = ''-'' then Some NO_SQUARE else parseEnPassant (fenField 3 fen))"

fun setFromFen_side :: "string \<Rightarrow> (bool \<times> Board) option \<Rightarrow> (bool \<times> Board) option" where
  "setFromFen_side fen None = None"
| "setFromFen_side fen (Some (False, b)) = Some (False, b)"
| "setFromFen_side fen (Some (True, b)) =
     setFromFen_castling fen
       (if fenField 2 fen \<noteq> ''-''
        then parseCastling (fenField 2 fen)
               (b\<lparr>sideToMove := (if fenField 1 fen = ''w'' then WHITE else BLACK),
                  castlingRights := 0\<rparr>)
        else (True, b\<lparr>sideToMove := (if fenField 1 fen = ''w'' then WHITE else BLACK),
                      castlingRights := 0\<rparr>))"

definition setFromFen :: "string \<Rightarrow> Board \<Rightarrow> (bool \<times> Board) option" where
  "setFromFen fen b =
     (if fenField 0 fen = [] \<or> fenField 1 fen = [] \<or> fenField 2 fen = [] \<or>
         fenField 3 fen = [] \<or> fenField 4 fen = [] \<or> fenField 5 fen = []
      then Some (False, clearBoards b)
      else setFromFen_side fen (parsePlacement (fenField 0 fen) 7 0 (clearBoards b)))"

subsection \<open>getFen\<close>

definition pieceChar :: "PieceType \<Rightarrow> Color \<Rightarrow> char" where
  "pieceChar pieceType pieceColor =
     (let ch = (case pieceType of
                  PAWN \<Rightarrow> CHR ''p''
                | KNIGHT \<Rightarrow> CHR ''n''
                | BISHOP \<Rightarrow> CHR ''b''
                | ROOK \<Rightarrow> CHR ''r''
                | QUEEN \<Rightarrow> CHR ''q''
                | KING \<Rightarrow> CHR ''k''
                | NO_PIECE_TYPE \<Rightarrow> CHR ''?'')
      in if pieceColor = WHITE then toupper ch else ch)"

text \<open>The loop over the files of one rank, with the counter \<^verbatim>\<open>emptyCount\<close>.\<close>

fun fenFiles :: "Board \<Rightarrow> nat \<Rightarrow> nat list \<Rightarrow> int \<Rightarrow> string" where
  "fenFiles b rank [] emptyCount = (if 0 < emptyCount then showInt emptyCount else [])"
| "fenFiles b rank (file # files) emptyCount =
     (let (pieceType, pieceColor) = pieceAt b (squareFromRankFile rank file)
      in if pieceType = NO_PIECE_TYPE then fenFiles b rank files (emptyCount + 1)
         else (if 0 < emptyCount then showInt emptyCount else []) @
              pieceChar pieceType pieceColor # fenFiles b rank files 0)"

definition getFen :: "Board \<Rightarrow> string" where
  "getFen b =
     concat (map (\<lambda>rank. fenFiles b rank [0 ..< 8] 0 @ (if 0 < rank then ''/'' else []))
               (rev [0 ..< 8])) @
     (if sideToMove b = WHITE then '' w '' else '' b '') @
     (if castlingRights b = 0 then ''-''
      else (if castlingRights b AND WHITE_OO \<noteq> 0 then ''K'' else []) @
           (if castlingRights b AND WHITE_OOO \<noteq> 0 then ''Q'' else []) @
           (if castlingRights b AND BLACK_OO \<noteq> 0 then ''k'' else []) @
           (if castlingRights b AND BLACK_OOO \<noteq> 0 then ''q'' else [])) @
     '' '' @
     (if enPassantSquare b = NO_SQUARE then ''-''
      else [char_of (of_char CHR ''a'' + squareFile (enPassantSquare b)),
            char_of (of_char CHR ''1'' + squareRank (enPassantSquare b))]) @
     '' '' @ showInt (halfmoveClock b) @ '' '' @ showInt (fullmoveNumber b)"

subsection \<open>isInsufficientMaterial\<close>


section \<open>Facts about the bitboard primitives\<close>

lemma nonzero_has_bit:
  assumes "(bb::Bitboard) \<noteq> 0"
  shows "\<exists>i<64. bit bb i"
proof -
  from assms obtain i where "bit bb i"
    by (auto simp: bit_eq_iff)
  moreover then have "i < 64"
    using bit_imp_le_length[of bb i] by simp
  ultimately show ?thesis by blast
qed

lemma ctzll_bit:
  assumes "bb \<noteq> 0"
  shows "ctzll bb < 64 \<and> bit bb (ctzll bb)"
proof -
  obtain i where i: "i < 64" "bit bb i"
    using nonzero_has_bit[OF assms] by blast
  let ?P = "\<lambda>i. \<not> bit bb i"
  have "i \<in> set [0..<64]"
    using i by simp
  then have "takeWhile ?P [0..<64] \<noteq> [0..<64]"
    using i(2) by (auto simp only: takeWhile_eq_all_conv)
  then have "length (takeWhile ?P [0..<64]) \<noteq> length [0..<64]"
    using takeWhile_eq_take[of ?P "[0..<64]"] by auto
  then have lt: "length (takeWhile ?P [0..<64]) < length [0..<64]"
    using length_takeWhile_le[of ?P "[0..<64]"] by linarith
  from nth_length_takeWhile[OF lt] lt show ?thesis
    by (simp add: ctzll_def)
qed

lemma ctzll_least:
  assumes "j < ctzll bb"
  shows "\<not> bit bb j"
proof -
  let ?P = "\<lambda>i. \<not> bit bb i"
  let ?t = "takeWhile ?P [0..<64]"
  have j: "j < length ?t"
    using assms by (simp add: ctzll_def)
  have "?t ! j \<in> set ?t"
    using j by simp
  then have "?P (?t ! j)"
    by (rule set_takeWhileD[THEN conjunct2])
  moreover have "?t ! j = [0..<64] ! j"
    using j by (rule takeWhile_nth)
  moreover have "j < 64"
    using j length_takeWhile_le[of ?P "[0..<64]"] by simp
  ultimately show ?thesis by simp
qed

lemma clear_lowest_bit:
  fixes w :: "'a::len word"
  assumes n: "bit w n" and low: "\<And>j. j < n \<Longrightarrow> \<not> bit w j"
  shows "bit (w AND (w - 1)) k \<longleftrightarrow> bit w k \<and> k \<noteq> n"
proof -
  define r where "r = drop_bit (Suc n) w"
  define hi where "hi = push_bit (Suc n) r"
  have tb: "take_bit n w = 0"
    by (rule bit_eqI) (auto simp: bit_take_bit_iff low)
  have odd: "odd (drop_bit n w)"
    using n by (simp add: bit_iff_odd_drop_bit)
  have dn: "drop_bit n w = 1 + 2 * r"
  proof -
    have "drop_bit n w = drop_bit n w mod 2 + 2 * (drop_bit n w div 2)"
      by (simp only: mod_mult_div_eq)
    also have "drop_bit n w mod 2 = 1"
      using odd by (simp add: odd_iff_mod_2_eq_one)
    also have "drop_bit n w div 2 = r"
      by (simp add: r_def drop_bit_Suc drop_bit_half)
    finally show ?thesis .
  qed
  have w: "w = push_bit n 1 + hi"
  proof -
    have "w = push_bit n (drop_bit n w) + take_bit n w"
      by (simp only: bits_ident)
    also have "\<dots> = push_bit n (1 + 2 * r)"
      by (simp add: tb dn)
    also have "\<dots> = push_bit n 1 + hi"
      by (simp add: hi_def push_bit_eq_mult algebra_simps)
    finally show ?thesis .
  qed
  have bw: "bit hi k \<longleftrightarrow> Suc n \<le> k \<and> bit w k" for k
    unfolding hi_def r_def bit_push_bit_iff bit_drop_bit_eq
    by (auto dest: bit_imp_possible_bit)
  have "w - 1 = mask n + hi"
    by (subst w) (simp add: mask_eq_exp_minus_1 push_bit_eq_mult)
  also have "\<dots> = mask n OR hi"
    by (rule disjunctive_add) (auto simp: bit_mask_iff bw)
  finally have w1: "w - 1 = mask n OR hi" .
  show ?thesis
    unfolding w1 using n low[of k]
    by (cases "k < n"; cases "k = n") (auto simp: bit_and_iff bit_or_iff bit_mask_iff bw)
qed

lemma lsb_eval: "lsb 0x100000001 = 0" "lsb 2 = 1"
  by (simp_all add: lsb_def ctzll_def upt_rec)

section \<open>pop-and-return-lsb\<close>

text \<open>
  C5, as the code has it. \<^verbatim>\<open>popLsb\<close> keeps a copy of its argument, clears the lowest set
  bit of the argument in place and returns the copy: for a nonzero bitboard the value
  returned is the whole input bitboard, not a square, and the argument afterwards has
  exactly the bits of the input other than the least significant set one, whose index is
  what \<^verbatim>\<open>lsb\<close> gives for the input.
\<close>

theorem popLsb_returns_input_and_clears_lsb:
  assumes "bb \<noteq> 0"
  shows "fst (popLsb bb) = bb \<and>
         lsb bb < 64 \<and> bit bb (lsb bb) \<and> (\<forall>j<lsb bb. \<not> bit bb j) \<and>
         (\<forall>k. bit (snd (popLsb bb)) k \<longleftrightarrow> bit bb k \<and> k \<noteq> lsb bb)"
proof -
  have l: "lsb bb = ctzll bb"
    using assms by (simp add: lsb_def)
  have b: "bit bb (ctzll bb)" and lt: "ctzll bb < 64"
    using ctzll_bit[OF assms] by simp_all
  have "bit (bb AND (bb - 1)) k \<longleftrightarrow> bit bb k \<and> k \<noteq> ctzll bb" for k
    using b ctzll_least by (rule clear_lowest_bit)
  then show ?thesis
    using b lt ctzll_least by (simp add: popLsb_def l)
qed

theorem popLsb_returns_input_and_clears_lsb_witness:
  "(0x100000001 :: Bitboard) \<noteq> 0 \<and> fst (popLsb 0x100000001) = 0x100000001 \<and>
   lsb 0x100000001 = 0 \<and> bit (0x100000001 :: Bitboard) 0 \<and>
   (\<forall>k. bit (snd (popLsb 0x100000001)) k \<longleftrightarrow> bit (0x100000001 :: Bitboard) k \<and> k \<noteq> 0)"
proof -
  have h: "(0x100000001 :: Bitboard) \<noteq> 0"
    by simp
  show ?thesis
    using h popLsb_returns_input_and_clears_lsb [OF h] by (simp add: lsb_eval)
qed

text \<open>
  C5 as stated fails: on the bitboard with only B1 set, whose least significant set bit
  has index 1, the value returned is the bitboard 2.
\<close>

theorem popLsb_returns_square_counterexample:
  "(2 :: Bitboard) \<noteq> 0 \<and> unat (fst (popLsb 2)) \<noteq> lsb 2"
  by (simp add: popLsb_def lsb_eval)

section \<open>The starting position\<close>

lemma reset_explicit:
  "reset b =
     \<lparr>pieces =
        [[0x000000000000FF00, 0x0000000000000042, 0x0000000000000024,
          0x0000000000000081, 0x0000000000000008, 0x0000000000000010],
         [0x00FF000000000000, 0x4200000000000000, 0x2400000000000000,
          0x8100000000000000, 0x0800000000000000, 0x1000000000000000]],
      allPieces = [0x000000000000FFFF, 0xFFFF000000000000],
      occupiedSquares = 0xFFFF00000000FFFF, sideToMove = WHITE, castlingRights = 15,
      enPassantSquare = 64, halfmoveClock = 0, fullmoveNumber = 1, chess960 = chess960 b\<rparr>"
  by (cases b)
    (simp add: reset_def updateCombinedBitboards_def combined_def getPieces_def pieceTypes_def)

definition startMoves :: "Move list" where
  "startMoves = map fromUci
     [''a2a3'', ''a2a4'', ''b2b3'', ''b2b4'', ''c2c3'', ''c2c4'', ''d2d3'', ''d2d4'',
      ''e2e3'', ''e2e4'', ''f2f3'', ''f2f4'', ''g2g3'', ''g2g4'', ''h2h3'', ''h2h4'',
      ''b1a3'', ''b1c3'', ''g1f3'', ''g1h3'']"

lemma start_pseudo: "generatePseudoLegalMoves (reset b) = Some startMoves"
  unfolding reset_explicit by code_simp

lemma start_accepts_a:
  "map_option fst (makeMove (fromUci ''a2a3'') (reset b)) = Some True"
  "map_option fst (makeMove (fromUci ''a2a4'') (reset b)) = Some True"
  "map_option fst (makeMove (fromUci ''b2b3'') (reset b)) = Some True"
  "map_option fst (makeMove (fromUci ''b2b4'') (reset b)) = Some True"
  "map_option fst (makeMove (fromUci ''c2c3'') (reset b)) = Some True"
  unfolding reset_explicit by code_simp+

lemma start_accepts_b:
  "map_option fst (makeMove (fromUci ''c2c4'') (reset b)) = Some True"
  "map_option fst (makeMove (fromUci ''d2d3'') (reset b)) = Some True"
  "map_option fst (makeMove (fromUci ''d2d4'') (reset b)) = Some True"
  "map_option fst (makeMove (fromUci ''e2e3'') (reset b)) = Some True"
  "map_option fst (makeMove (fromUci ''e2e4'') (reset b)) = Some True"
  unfolding reset_explicit by code_simp+

lemma start_accepts_c:
  "map_option fst (makeMove (fromUci ''f2f3'') (reset b)) = Some True"
  "map_option fst (makeMove (fromUci ''f2f4'') (reset b)) = Some True"
  "map_option fst (makeMove (fromUci ''g2g3'') (reset b)) = Some True"
  "map_option fst (makeMove (fromUci ''g2g4'') (reset b)) = Some True"
  "map_option fst (makeMove (fromUci ''h2h3'') (reset b)) = Some True"
  unfolding reset_explicit by code_simp+

lemma start_accepts_d:
  "map_option fst (makeMove (fromUci ''h2h4'') (reset b)) = Some True"
  "map_option fst (makeMove (fromUci ''b1a3'') (reset b)) = Some True"
  "map_option fst (makeMove (fromUci ''b1c3'') (reset b)) = Some True"
  "map_option fst (makeMove (fromUci ''g1f3'') (reset b)) = Some True"
  "map_option fst (makeMove (fromUci ''g1h3'') (reset b)) = Some True"
  unfolding reset_explicit by code_simp+

lemma filterLegalMoves_all_accepted:
  assumes "\<forall>m \<in> set ms. map_option fst (makeMove m b) = Some True"
  shows "filterLegalMoves b ms = Some ms"
  using assms
proof (induction ms)
  case Nil
  then show ?case by simp
next
  case (Cons m ms)
  from Cons.prems obtain b' where "makeMove m b = Some (True, b')"
    by (cases "makeMove m b") auto
  moreover have "filterLegalMoves b ms = Some ms"
    using Cons by simp
  ultimately show ?case by simp
qed

lemma start_legal: "generateLegalMoves (reset b) = Some startMoves"
proof -
  have "\<forall>m \<in> set startMoves. map_option fst (makeMove m (reset b)) = Some True"
    unfolding startMoves_def
    by (simp only: list.set list.map ball_simps start_accepts_a start_accepts_b
        start_accepts_c start_accepts_d simp_thms)
  then show ?thesis
    by (simp add: generateLegalMoves_def start_pseudo filterLegalMoves_all_accepted)
qed

text \<open>
  C7. On the position that \<^verbatim>\<open>reset\<close> produces (whatever the board held before), the
  legal move generator returns exactly 20 moves.
\<close>

theorem legal_moves_of_starting_position:
  "map_option length (generateLegalMoves (reset b)) = Some 20"
  by (simp add: start_legal startMoves_def)

section \<open>UCI round trip\<close>

text \<open>
  C8, as the code has it. For a move whose two squares are on the board and whose
  promotion is none, queen, rook, bishop or knight, parsing the UCI text of the move gives
  the move back, in all three components.
\<close>

theorem fromUci_toUci:
  assumes "from_sq m < 64" and "to_sq m < 64"
    and "promotion m \<in> {NO_PIECE_TYPE, QUEEN, ROOK, BISHOP, KNIGHT}"
  shows "fromUci (toUci m) = m"
proof -
  have d: "squareFromRankFile (squareRank s) (squareFile s) = s" for s
    by (simp add: squareFromRankFile_def squareRank_def squareFile_def)
  have f: "squareFile s < 8" for s
    by (simp add: squareFile_def)
  have r: "s < 64 \<Longrightarrow> squareRank s < 8" for s
    by (simp add: squareRank_def)
  show ?thesis
    using assms f[of "from_sq m"] f[of "to_sq m"] r[of "from_sq m"] r[of "to_sq m"]
    by (cases m) (auto simp: toUci_def fromUci_def isValid_def Let_def d)
qed

theorem fromUci_toUci_witness:
  "from_sq (mkMove 52 60 QUEEN) < 64 \<and> to_sq (mkMove 52 60 QUEEN) < 64 \<and>
   promotion (mkMove 52 60 QUEEN) \<in> {NO_PIECE_TYPE, QUEEN, ROOK, BISHOP, KNIGHT} \<and>
   toUci (mkMove 52 60 QUEEN) = ''e7e8q'' \<and>
   fromUci (toUci (mkMove 52 60 QUEEN)) = mkMove 52 60 QUEEN"
proof -
  have h: "from_sq (mkMove 52 60 QUEEN) < 64" "to_sq (mkMove 52 60 QUEEN) < 64"
    "promotion (mkMove 52 60 QUEEN) \<in> {NO_PIECE_TYPE, QUEEN, ROOK, BISHOP, KNIGHT}"
    by (simp_all add: mkMove_def)
  have u: "toUci (mkMove 52 60 QUEEN) = ''e7e8q''"
    by code_simp
  show ?thesis
    using h u fromUci_toUci [OF h] by simp
qed

text \<open>
  C8 as stated, for any promotion value, fails: \<^verbatim>\<open>toUci\<close> writes no letter for a
  promotion of \<^verbatim>\<open>KING\<close> (or \<^verbatim>\<open>PAWN\<close>), so the text is \<^verbatim>\<open>e7e8\<close> and parses to a move
  without promotion.
\<close>

theorem fromUci_toUci_counterexample:
  "from_sq (mkMove 52 60 KING) < 64 \<and> to_sq (mkMove 52 60 KING) < 64 \<and>
   fromUci (toUci (mkMove 52 60 KING)) \<noteq> mkMove 52 60 KING"
  by (simp add: mkMove_def toUci_def fromUci_def isValid_def squareFile_def squareRank_def
      squareFromRankFile_def)

section \<open>Pawn attacks\<close>













section \<open>A game in which the en passant square outlives the double push\<close>

lemma playMoves_append:
  "playMoves (xs @ ys) b = (case playMoves xs b of None \<Rightarrow> None | Some b' \<Rightarrow> playMoves ys b')"
proof -
  have n: "foldl thenMove None ys = None" for ys
    by (induction ys) simp_all
  show ?thesis
    by (cases "foldl thenMove (Some b) xs") (simp_all add: playMoves_def n)
qed

text \<open>
  The position after 1. e4 e5 2. Ke2, black to move:
  \<^verbatim>\<open>rnbqkbnr/pppp1ppp/8/4p3/4P3/8/PPPPKPPP/RNBQ1BNR b kq e6 1 2\<close>.
\<close>

definition pos_Ke2 :: Board where
  "pos_Ke2 =
     \<lparr>pieces =
        [[0x000000001000EF00, 0x0000000000000042, 0x0000000000000024,
          0x0000000000000081, 0x0000000000000008, 0x0000000000001000],
         [0x00EF001000000000, 0x4200000000000000, 0x2400000000000000,
          0x8100000000000000, 0x0800000000000000, 0x1000000000000000]],
      allPieces = [0x000000001000FFEF, 0xFFEF001000000000],
      occupiedSquares = 0xFFEF00101000FFEF, sideToMove = BLACK, castlingRights = 12,
      enPassantSquare = 44, halfmoveClock = 1, fullmoveNumber = 2, chess960 = False\<rparr>"

text \<open>
  The position after 2... Ke7 3. Ke3 Ke6 4. Ke2, black to move, with the black king on e6
  and the en passant square still e6.
\<close>

definition pos_Ke6 :: Board where
  "pos_Ke6 =
     \<lparr>pieces =
        [[0x000000001000EF00, 0x0000000000000042, 0x0000000000000024,
          0x0000000000000081, 0x0000000000000008, 0x0000000000001000],
         [0x00EF001000000000, 0x4200000000000000, 0x2400000000000000,
          0x8100000000000000, 0x0800000000000000, 0x0000100000000000]],
      allPieces = [0x000000001000FFEF, 0xEFEF101000000000],
      occupiedSquares = 0xEFEF10101000FFEF, sideToMove = BLACK, castlingRights = 0,
      enPassantSquare = 44, halfmoveClock = 5, fullmoveNumber = 4, chess960 = False\<rparr>"

text \<open>
  The position after 4... d7e6, the en passant capture onto e6 that the generator emits:
  the black pawn board and the black king board both hold e6.
\<close>

definition pos_dxe6 :: Board where
  "pos_dxe6 =
     \<lparr>pieces =
        [[0x000000001000EF00, 0x0000000000000042, 0x0000000000000024,
          0x0000000000000081, 0x0000000000000008, 0x0000000000001000],
         [0x00E7101000000000, 0x4200000000000000, 0x2400000000000000,
          0x8100000000000000, 0x0800000000000000, 0x0000100000000000]],
      allPieces = [0x000000001000FFEF, 0xEFE7101000000000],
      occupiedSquares = 0xEFE710101000FFEF, sideToMove = WHITE, castlingRights = 0,
      enPassantSquare = 64, halfmoveClock = 0, fullmoveNumber = 5, chess960 = False\<rparr>"

lemma game_Ke2:
  "playMoves (map fromUci [''e2e4'', ''e7e5'', ''e1e2'']) Board_new = Some pos_Ke2"
  by code_simp

lemma game_Ke6:
  "playMoves (map fromUci [''e8e7'', ''e2e3'', ''e7e6'', ''e3e2'']) pos_Ke2 = Some pos_Ke6"
  by code_simp

lemma game_dxe6: "playMoves (map fromUci [''d7e6'']) pos_Ke6 = Some pos_dxe6"
  by code_simp

lemma pseudo_Ke6:
  "generatePseudoLegalMoves pos_Ke6 = Some (map fromUci
     [''a7a6'', ''a7a5'', ''b7b6'', ''b7b5'', ''c7c6'', ''c7c5'', ''d7d6'', ''d7d5'',
      ''d7e6'', ''f7f6'', ''f7f5'', ''f7e6'', ''g7g6'', ''g7g5'', ''h7h6'', ''h7h5'',
      ''b8a6'', ''b8c6'', ''g8f6'', ''g8h6'', ''g8e7'', ''f8a3'', ''f8b4'', ''f8c5'',
      ''f8d6'', ''f8e7'', ''d8h4'', ''d8g5'', ''d8f6'', ''d8e7'', ''d8e8'', ''e6d5'',
      ''e6f5'', ''e6d6'', ''e6f6'', ''e6e7''])"
  by code_simp

lemma fen_dxe6:
  "getFen pos_dxe6 = ''rnbq1bnr/ppp2ppp/4p3/4p3/4P3/8/PPPPKPPP/RNBQ1BNR w - - 0 5''"
  by code_simp

lemma parse_fen_dxe6:
  "setFromFen ''rnbq1bnr/ppp2ppp/4p3/4p3/4P3/8/PPPPKPPP/RNBQ1BNR w - - 0 5'' pos_dxe6 =
     Some (True, pos_dxe6\<lparr>pieces :=
        [[0x000000001000EF00, 0x0000000000000042, 0x0000000000000024,
          0x0000000000000081, 0x0000000000000008, 0x0000000000001000],
         [0x00E7101000000000, 0x4200000000000000, 0x2400000000000000,
          0x8100000000000000, 0x0800000000000000, 0]]\<rparr>)"
  by code_simp

lemma castle_keeps_en_passant:
  "map_option enPassantSquare
     (thenMove (accepted (setFromFen ''r3k2r/8/8/8/4P3/8/8/R3K2R b KQkq e3 0 1'' Board_new))
        (fromUci ''e8g8'')) = Some 20"
  by code_simp

lemma promotion_keeps_en_passant:
  "map_option enPassantSquare
     (thenMove (accepted (setFromFen ''4k3/P7/8/7p/8/8/8/4K3 w - h6 0 2'' Board_new))
        (fromUci ''a7a8q'')) = Some 47"
  by code_simp

text \<open>
  C1 on the code. The en passant square is still set after a move that is not a double
  push: e6 after the king move 2. Ke2 that follows 1. e4 e5; e3 after black castles short
  in \<^verbatim>\<open>r3k2r/8/8/8/4P3/8/8/R3K2R b KQkq e3 0 1\<close>; h6 after the promotion a7a8q in
  \<^verbatim>\<open>4k3/P7/8/7p/8/8/8/4K3 w - h6 0 2\<close>. Only the branches of the en passant capture
  and of the regular piece move assign \<^verbatim>\<open>NO_SQUARE\<close>.
\<close>

theorem en_passant_square_survives_king_move_castling_promotion:
  "map_option enPassantSquare
     (playMoves (map fromUci [''e2e4'', ''e7e5'', ''e1e2'']) Board_new) = Some 44 \<and>
   map_option enPassantSquare
     (thenMove (accepted (setFromFen ''r3k2r/8/8/8/4P3/8/8/R3K2R b KQkq e3 0 1'' Board_new))
        (fromUci ''e8g8'')) = Some 20 \<and>
   map_option enPassantSquare
     (thenMove (accepted (setFromFen ''4k3/P7/8/7p/8/8/8/4K3 w - h6 0 2'' Board_new))
        (fromUci ''a7a8q'')) = Some 47"
proof -
  have k: "map_option enPassantSquare
     (playMoves (map fromUci [''e2e4'', ''e7e5'', ''e1e2'']) Board_new) = Some 44"
    unfolding game_Ke2 by (simp add: pos_Ke2_def)
  show ?thesis
    by (intro conjI k castle_keeps_en_passant promotion_keeps_en_passant)
qed

section \<open>FEN round trip\<close>

lemma game_to_dxe6:
  "playMoves (map fromUci [''e2e4'', ''e7e5'', ''e1e2'', ''e8e7'', ''e2e3'', ''e7e6'', ''e3e2'',
      ''d7e6'']) Board_new = Some pos_dxe6"
proof -
  have "playMoves (map fromUci [''e2e4'', ''e7e5'', ''e1e2''] @
          map fromUci [''e8e7'', ''e2e3'', ''e7e6'', ''e3e2''] @ map fromUci [''d7e6''])
          Board_new = Some pos_dxe6"
    by (simp only: playMoves_append game_Ke2 game_Ke6 game_dxe6 option.case)
  then show ?thesis
    by simp
qed

text \<open>
  C6 on the code. The moves 1. e4 e5 2. Ke2 Ke7 3. Ke3 Ke6 4. Ke2 d7e6 are all accepted
  from the starting position; the last one is in the list of the generator, as an en
  passant capture onto the square e6 that the king moves never cleared. In the position
  reached, e6 is on the black pawn board and on the black king board. \<^verbatim>\<open>getFen\<close> writes
  the pawn only, so the FEN has no black king, and \<^verbatim>\<open>setFromFen\<close> of that FEN succeeds
  with an empty black king board: the position is not reproduced.
\<close>

theorem fen_round_trip_loses_king_after_stale_en_passant:
  "playMoves (map fromUci [''e2e4'', ''e7e5'', ''e1e2'', ''e8e7'', ''e2e3'', ''e7e6'', ''e3e2'',
      ''d7e6'']) Board_new = Some pos_dxe6 \<and>
   fromUci ''d7e6'' \<in> set (the (generatePseudoLegalMoves pos_Ke6)) \<and>
   getFen pos_dxe6 = ''rnbq1bnr/ppp2ppp/4p3/4p3/4P3/8/PPPPKPPP/RNBQ1BNR w - - 0 5'' \<and>
   map_option fst (setFromFen (getFen pos_dxe6) pos_dxe6) = Some True \<and>
   map_option snd (setFromFen (getFen pos_dxe6) pos_dxe6) \<noteq> Some pos_dxe6"
proof -
  have m: "fromUci ''d7e6'' \<in> set (the (generatePseudoLegalMoves pos_Ke6))"
    unfolding pseudo_Ke6 by simp
  have f: "map_option fst (setFromFen (getFen pos_dxe6) pos_dxe6) = Some True"
    unfolding fen_dxe6 parse_fen_dxe6 by simp
  have n: "map_option snd (setFromFen (getFen pos_dxe6) pos_dxe6) \<noteq> Some pos_dxe6"
    unfolding fen_dxe6 parse_fen_dxe6 by (simp add: pos_dxe6_def)
  show ?thesis
    by (intro conjI game_to_dxe6 m fen_dxe6 f n)
qed

section \<open>Castling rights after the capture of a corner rook\<close>

lemma promotion_takes_rook:
  "map_option (\<lambda>b. (castlingRights b, pieceAt b A8, pieceAt b E8))
     (accepted (setFromFen ''r3k3/1P6/8/8/8/8/8/4K3 w q - 0 1'' Board_new))
     = Some (BLACK_OOO, (ROOK, BLACK), (KING, BLACK))"
  "map_option (\<lambda>b. (castlingRights b, pieceAt b A8, pieceAt b E8))
     (thenMove (accepted (setFromFen ''r3k3/1P6/8/8/8/8/8/4K3 w q - 0 1'' Board_new))
        (fromUci ''b7a8q''))
     = Some (BLACK_OOO, (QUEEN, WHITE), (KING, BLACK))"
  by code_simp+

lemma king_takes_rook:
  "map_option (\<lambda>b. (castlingRights b, pieceAt b A8, pieceAt b E8))
     (accepted (setFromFen ''r3k3/1K6/8/8/8/8/8/8 w q - 0 1'' Board_new))
     = Some (BLACK_OOO, (ROOK, BLACK), (KING, BLACK))"
  "map_option (\<lambda>b. (castlingRights b, pieceAt b A8, pieceAt b E8))
     (thenMove (accepted (setFromFen ''r3k3/1K6/8/8/8/8/8/8 w q - 0 1'' Board_new))
        (fromUci ''b7a8''))
     = Some (BLACK_OOO, (KING, WHITE), (KING, BLACK))"
  by code_simp+

text \<open>
  C2 on the code. In \<^verbatim>\<open>r3k3/1P6/8/8/8/8/8/4K3 w q - 0 1\<close> the only castling right is
  black's queenside one, with the rook on a8 and the king on e8. After the accepted
  promotion b7a8q the right is still set and a white queen stands on a8; the same happens
  with the king capture b7a8 in \<^verbatim>\<open>r3k3/1K6/8/8/8/8/8/8 w q - 0 1\<close>. The rook capture
  update is made in the branch of the regular piece move only.
\<close>

theorem castling_right_survives_capture_of_corner_rook:
  "map_option (\<lambda>b. (castlingRights b, pieceAt b A8, pieceAt b E8))
     (accepted (setFromFen ''r3k3/1P6/8/8/8/8/8/4K3 w q - 0 1'' Board_new))
     = Some (BLACK_OOO, (ROOK, BLACK), (KING, BLACK)) \<and>
   map_option (\<lambda>b. (castlingRights b, pieceAt b A8, pieceAt b E8))
     (thenMove (accepted (setFromFen ''r3k3/1P6/8/8/8/8/8/4K3 w q - 0 1'' Board_new))
        (fromUci ''b7a8q''))
     = Some (BLACK_OOO, (QUEEN, WHITE), (KING, BLACK)) \<and>
   map_option (\<lambda>b. (castlingRights b, pieceAt b A8, pieceAt b E8))
     (accepted (setFromFen ''r3k3/1K6/8/8/8/8/8/8 w q - 0 1'' Board_new))
     = Some (BLACK_OOO, (ROOK, BLACK), (KING, BLACK)) \<and>
   map_option (\<lambda>b. (castlingRights b, pieceAt b A8, pieceAt b E8))
     (thenMove (accepted (setFromFen ''r3k3/1K6/8/8/8/8/8/8 w q - 0 1'' Board_new))
        (fromUci ''b7a8''))
     = Some (BLACK_OOO, (KING, WHITE), (KING, BLACK))"
  by (simp only: promotion_takes_rook king_takes_rook simp_thms)


section \<open>What makeMove checks\<close>

text \<open>
  The castling preconditions as \<^verbatim>\<open>makeMove\<close> tests them: the move has the squares of one
  of the four castling moves for the side to move, and the right is missing, a square
  between king and rook is occupied, the king is in check, or the square it passes over is
  attacked.
\<close>

definition castlingRefused :: "Board \<Rightarrow> Move \<Rightarrow> bool" where
  "castlingRefused b m \<longleftrightarrow>
     from_sq m = E1 \<and> to_sq m = G1 \<and> sideToMove b = WHITE \<and>
       (castlingRights b AND WHITE_OO = 0 \<or>
        occupiedSquares b AND (sqBit F1 OR sqBit G1) \<noteq> 0 \<or>
        isInCheck b WHITE \<or> isSquareAttacked b F1 BLACK) \<or>
     from_sq m = E1 \<and> to_sq m = C1 \<and> sideToMove b = WHITE \<and>
       (castlingRights b AND WHITE_OOO = 0 \<or>
        occupiedSquares b AND (sqBit B1 OR sqBit C1 OR sqBit D1) \<noteq> 0 \<or>
        isInCheck b WHITE \<or> isSquareAttacked b D1 BLACK) \<or>
     from_sq m = E8 \<and> to_sq m = G8 \<and> sideToMove b = BLACK \<and>
       (castlingRights b AND BLACK_OO = 0 \<or>
        occupiedSquares b AND (sqBit F8 OR sqBit G8) \<noteq> 0 \<or>
        isInCheck b BLACK \<or> isSquareAttacked b F8 WHITE) \<or>
     from_sq m = E8 \<and> to_sq m = C8 \<and> sideToMove b = BLACK \<and>
       (castlingRights b AND BLACK_OOO = 0 \<or>
        occupiedSquares b AND (sqBit B8 OR sqBit C8 OR sqBit D8) \<noteq> 0 \<or>
        isInCheck b BLACK \<or> isSquareAttacked b D8 WHITE)"

lemma isInCheck_cong:
  "pieces b' = pieces b \<Longrightarrow> occupiedSquares b' = occupiedSquares b \<Longrightarrow>
   isInCheck b' c = isInCheck b c"
  by (simp add: isInCheck_def isSquareAttacked_def findKing_def getPieces_def)

lemma sideToMove_setPieces [simp]: "sideToMove (setPieces b c p v) = sideToMove b"
  by (simp add: setPieces_def)

lemma sideToMove_clearSq [simp]: "sideToMove (clearSq b c p sq) = sideToMove b"
  by (simp add: clearSq_def)

lemma sideToMove_setSq [simp]: "sideToMove (setSq b c p sq) = sideToMove b"
  by (simp add: setSq_def)

lemma sideToMove_clearRights [simp]: "sideToMove (clearRights cond r b) = sideToMove b"
  by (simp add: clearRights_def)

lemma sideToMove_movePiece [simp]: "sideToMove (movePiece b m mc mp ic cc cp) = sideToMove b"
  by (simp add: movePiece_def)

lemma sideToMove_castle [simp]: "sideToMove (castle b c kf kt rf rt) = sideToMove b"
  by (simp add: castle_def)

lemma sideToMove_rookMoveRights [simp]: "sideToMove (rookMoveRights b m mp) = sideToMove b"
  by (simp add: rookMoveRights_def)

lemma sideToMove_rookCaptureRights [simp]:
  "sideToMove (rookCaptureRights b m cp cc) = sideToMove b"
  by (simp add: rookCaptureRights_def)

lemma branches_sideToMove:
  "makeMove_branches b m mp mc cp cc = Continue b1 \<Longrightarrow> sideToMove b1 = sideToMove b"
  by (auto simp: makeMove_branches_def split: if_splits)

lemma branches_ReturnFalse:
  "makeMove_branches b m mp mc cp cc = ReturnFalse \<longleftrightarrow> mp = KING \<and> castlingRefused b m"
  by (auto simp: makeMove_branches_def castlingRefused_def split: if_splits)

lemma makeMove_accepts_iff:
  assumes v: "isValid m" and d: "makeMove m b \<noteq> None"
  shows "(\<exists>b'. makeMove m b = Some (True, b')) \<longleftrightarrow>
           snd (pieceAt b (from_sq m)) = sideToMove b \<and>
           \<not> (fst (pieceAt b (from_sq m)) = KING \<and> castlingRefused b m) \<and>
           \<not> isInCheck (snd (the (makeMove m b))) (sideToMove b)"
proof -
  obtain mp mc where pf: "pieceAt b (from_sq m) = (mp, mc)"
    by (cases "pieceAt b (from_sq m)")
  obtain cp cc where pt: "pieceAt b (to_sq m) = (cp, cc)"
    by (cases "pieceAt b (to_sq m)")
  have f: "\<not> 64 < from_sq m"
    using v d by (auto simp: makeMove_def)
  show ?thesis
  proof (cases "mc = sideToMove b")
    case False
    then show ?thesis
      using v f pf by (simp add: makeMove_def)
  next
    case True
    then have mm: "makeMove m b = makeMove_dispatch mp (cc \<noteq> NO_COLOR) b
                     (makeMove_branches b m mp mc cp cc)"
      using v d f pf pt by (auto simp: makeMove_def split: if_splits)
    show ?thesis
    proof (cases "makeMove_branches b m mp mc cp cc")
      case ReturnFalse
      then show ?thesis
        using mm pf branches_ReturnFalse[of b m mp mc cp cc] by simp
    next
      case UndefinedBehaviour
      then show ?thesis
        using mm d by simp
    next
      case (Continue b1)
      define b2 where "b2 = updateCombinedBitboards b1"
      have s2: "sideToMove b2 = sideToMove b"
        using branches_sideToMove[OF Continue] by (simp add: b2_def updateCombinedBitboards_def)
      have nr: "\<not> (mp = KING \<and> castlingRefused b m)"
        using Continue branches_ReturnFalse[of b m mp mc cp cc] by simp
      have mc2: "makeMove m b = makeMove_check mp (cc \<noteq> NO_COLOR) b2"
        using mm Continue by (simp add: b2_def)
      show ?thesis
      proof (cases "isInCheck b2 (sideToMove b)")
        case True
        then show ?thesis
          using mc2 s2 by (simp add: makeMove_check_def)
      next
        case False
        then obtain b' where r: "makeMove m b = Some (True, b')"
          and p: "pieces b' = pieces b2" "occupiedSquares b' = occupiedSquares b2"
          using mc2 s2 d
          by (auto simp: makeMove_check_def makeMove_state_def makeMove_fullmove_def
              split: if_splits)
        have "isInCheck b' (sideToMove b) = isInCheck b2 (sideToMove b)"
          using p by (rule isInCheck_cong)
        then show ?thesis
          using r False \<open>mc = sideToMove b\<close> pf nr by simp
      qed
    qed
  qed
qed

lemma a2a5_not_generated:
  "fromUci ''a2a5'' \<notin> set (the (generatePseudoLegalMoves Board_new))"
  unfolding Board_new_def start_pseudo by code_simp

lemma a1a2_not_generated:
  "fromUci ''a1a2'' \<notin> set (the (generatePseudoLegalMoves Board_new))"
  unfolding Board_new_def start_pseudo by code_simp

lemma a2a5_accepted:
  "map_option (\<lambda>r. (fst r, pieceAt (snd r) 8, pieceAt (snd r) 32))
     (makeMove (fromUci ''a2a5'') Board_new)
     = Some (True, (NO_PIECE_TYPE, NO_COLOR), (PAWN, WHITE))"
  by code_simp+

lemma a1a2_accepted:
  "pieceAt Board_new 8 = (PAWN, WHITE)"
  "map_option (\<lambda>r. (fst r, pieceAt (snd r) 8, getPieces (snd r) WHITE PAWN))
     (makeMove (fromUci ''a1a2'') Board_new)
     = Some (True, (ROOK, WHITE), 0xFE00)"
  by code_simp+

text \<open>
  C4. From the starting position \<^verbatim>\<open>makeMove\<close> accepts a2a5, a pawn stepping three ranks,
  and a1a2, the rook moving onto its own pawn, which disappears from the pawn board; the
  generator emits neither move. In general, for a structurally valid move on which the
  execution is defined, \<^verbatim>\<open>makeMove\<close> returns true exactly when the origin square holds a
  piece of the side to move, the move is not a castling move of the king whose
  preconditions fail, and the king of the mover is not in check in the position left
  behind: the movement rule of the piece is not consulted.
\<close>

theorem makeMove_checks_no_movement_rule:
  "(fromUci ''a2a5'' \<notin> set (the (generatePseudoLegalMoves Board_new)) \<and>
    map_option (\<lambda>r. (fst r, pieceAt (snd r) 8, pieceAt (snd r) 32))
      (makeMove (fromUci ''a2a5'') Board_new)
      = Some (True, (NO_PIECE_TYPE, NO_COLOR), (PAWN, WHITE))) \<and>
   (fromUci ''a1a2'' \<notin> set (the (generatePseudoLegalMoves Board_new)) \<and>
    pieceAt Board_new 8 = (PAWN, WHITE) \<and>
    map_option (\<lambda>r. (fst r, pieceAt (snd r) 8, getPieces (snd r) WHITE PAWN))
      (makeMove (fromUci ''a1a2'') Board_new)
      = Some (True, (ROOK, WHITE), 0xFE00)) \<and>
   (\<forall>m b. isValid m \<longrightarrow> makeMove m b \<noteq> None \<longrightarrow>
      ((\<exists>b'. makeMove m b = Some (True, b')) \<longleftrightarrow>
         snd (pieceAt b (from_sq m)) = sideToMove b \<and>
         \<not> (fst (pieceAt b (from_sq m)) = KING \<and> castlingRefused b m) \<and>
         \<not> isInCheck (snd (the (makeMove m b))) (sideToMove b)))"
  by (intro conjI allI impI a2a5_not_generated a1a2_not_generated a2a5_accepted a1a2_accepted
      makeMove_accepts_iff)

theorem makeMove_checks_no_movement_rule_witness:
  "isValid (fromUci ''a2a5'') \<and> makeMove (fromUci ''a2a5'') Board_new \<noteq> None \<and>
   (\<exists>b'. makeMove (fromUci ''a2a5'') Board_new = Some (True, b')) \<and>
   snd (pieceAt Board_new (from_sq (fromUci ''a2a5''))) = sideToMove Board_new \<and>
   \<not> isInCheck (snd (the (makeMove (fromUci ''a2a5'') Board_new))) (sideToMove Board_new)"
proof -
  have v: "isValid (fromUci ''a2a5'')"
    by code_simp
  have d: "makeMove (fromUci ''a2a5'') Board_new \<noteq> None"
    using a2a5_accepted by auto
  have e: "\<exists>b'. makeMove (fromUci ''a2a5'') Board_new = Some (True, b')"
    using a2a5_accepted by (cases "makeMove (fromUci ''a2a5'') Board_new") auto
  from makeMove_checks_no_movement_rule
  have "(\<exists>b'. makeMove (fromUci ''a2a5'') Board_new = Some (True, b')) \<longleftrightarrow>
         snd (pieceAt Board_new (from_sq (fromUci ''a2a5''))) = sideToMove Board_new \<and>
         \<not> (fst (pieceAt Board_new (from_sq (fromUci ''a2a5''))) = KING \<and>
            castlingRefused Board_new (fromUci ''a2a5'')) \<and>
         \<not> isInCheck (snd (the (makeMove (fromUci ''a2a5'') Board_new))) (sideToMove Board_new)"
    using v d by blast
  with v d e show ?thesis
    by blast
qed

section \<open>Insufficient material\<close>

declare popCount_loop.simps [simp del]
declare bitSquares.simps [simp del]

lemma finite_bits: "finite {i. bit (bb::Bitboard) i}"
proof -
  have "{i. bit bb i} \<subseteq> {..<64}"
    using bit_imp_le_length[of bb] by auto
  then show ?thesis
    by (rule finite_subset) simp
qed

lemma popCount_loop_card: "popCount_loop bb n = n + card {i. bit bb i}"
proof (induction bb n rule: popCount_loop.induct)
  case (1 bb count)
  show ?case
  proof (cases "bb = 0")
    case True
    have "{i. bit bb i} = {}"
      using True by auto
    then have e: "card {i. bit bb i} = 0"
      by (simp only: card.empty)
    have l: "popCount_loop bb count = count"
      using True by (subst popCount_loop.simps) simp
    show ?thesis
      unfolding l e by simp
  next
    case False
    have b: "bit bb (ctzll bb)"
      using ctzll_bit[OF False] by simp
    have "{i. bit (bb AND (bb - 1)) i} = {i. bit bb i} - {ctzll bb}"
      using clear_lowest_bit[of bb "ctzll bb", OF b ctzll_least] by auto
    then have "card {i. bit (bb AND (bb - 1)) i} = card {i. bit bb i} - 1"
      using b by (simp add: finite_bits)
    moreover have "0 < card {i. bit bb i}"
      using b finite_bits[of bb] by (auto simp: card_gt_0_iff)
    moreover have "popCount_loop bb count = popCount_loop (bb AND (bb - 1)) (count + 1)"
      using False by (subst popCount_loop.simps) simp
    ultimately show ?thesis
      using 1[OF False] by simp
  qed
qed

lemma popCount_card: "popCount bb = card {i. bit bb i}"
  by (simp add: popCount_def popCount_loop_card)


lemma popCount_0 [simp]: "popCount 0 = 0"
  by (simp add: popCount_card)











section \<open>Failure of the FEN parser\<close>



lemma setPieces_keeps [simp]:
  "allPieces (setPieces b c p v) = allPieces b"
  "occupiedSquares (setPieces b c p v) = occupiedSquares b"
  "chess960 (setPieces b c p v) = chess960 b"
  by (simp_all add: setPieces_def)





declare fenField.simps [simp del]

lemma clearBoards_keeps [simp]:
  "allPieces (clearBoards b) = [0, 0]"
  "occupiedSquares (clearBoards b) = 0"
  "chess960 (clearBoards b) = chess960 b"
  by (simp_all add: clearBoards_def)












end
